theory Spec2Isabelle
  imports Complex_Main
begin

section \<open>Data model (IDefs.ts and the SQLite schema of index.ts)\<close>

text \<open>
  Timestamps are the integer milliseconds of \<^verbatim>\<open>Date.now()\<close>. A nullable column or
  field is an \<open>option\<close>. The four tables are lists of rows in rowid order; rows are only
  ever appended or updated in place, never deleted.
\<close>

record IChannelRow =
  channelName :: string
  channelID :: string

record IMessageHistoryRow =
  rowid :: int
  channel :: string
  vodDuration :: "string option"
  startTime :: int
  endTime :: int
  messageID :: "string option"
  messageLink :: "string option"
  vodLink :: "string option"

record IChannelDataRow =
  rowid :: int
  channel :: string
  startTime :: int
  endTime :: "int option"
  messageID :: "string option"
  messageLink :: "string option"
  thumbnailURL :: "string option"
  lastThumbUpdate :: "int option"

record ErrorLogRow =
  id' :: int
  timestamp :: int
  errorType :: string
  description :: "string option"
  line :: "int option"
  trace :: "string option"

record IStreamData =
  user_id :: string
  user_login :: string
  user_name :: string
  type :: string
  title :: string
  started_at :: string
  thumbnail_url :: string
  game_name :: string

record database =
  Channels :: "IChannelRow list"
  ChannelData :: "IChannelDataRow list"
  MessageHistory :: "IMessageHistoryRow list"
  ErrorLog :: "ErrorLogRow list"

text \<open>A thrown JavaScript \<^verbatim>\<open>Error\<close>: its message and its (possibly undefined) stack.\<close>

record Error =
  message :: string
  stack :: "string option"

text \<open>The embeds built with \<^verbatim>\<open>EmbedBuilder\<close>, as plain data, and the calls made on the webhook client.\<close>

record EmbedField =
  fieldName :: string
  fieldValue :: string
  fieldInline :: bool

record Embed =
  embTitle :: string
  embFields :: "EmbedField list"
  embURL :: "string option"
  embDescription :: string
  embColor :: int
  embTimestamp :: int
  embImage :: "string option"

datatype webhook_call =
  Send string Embed
  | EditMessage string string Embed

fun embedOf :: "webhook_call \<Rightarrow> Embed" where
  "embedOf (Send c emb) = emb"
| "embedOf (EditMessage mid c emb) = emb"

text \<open>A call of a setter of \<^verbatim>\<open>EmbedBuilder\<close> with its argument (a date as its milliseconds).\<close>

datatype builder_call =
  SetTitle string
  | AddFields "EmbedField list"
  | SetURL string
  | SetDescription string
  | SetColor int
  | SetTimestamp int
  | SetImage string

text \<open>An HTTP response of \<^verbatim>\<open>fetch\<close>: the \<^verbatim>\<open>ok\<close> flag and the outcome of \<^verbatim>\<open>resp.json()\<close>,
  which is the \<^verbatim>\<open>data\<close> member of the Helix body (absent, or an array).\<close>

record 'a response =
  ok :: bool
  json :: "Error + 'a list option"

text \<open>
  Everything outside the program: the clock, the Twitch API, the Discord webhook, the
  environment variable \<^verbatim>\<open>DISCORD_ROLE\<close> and the exception object of the SQLite binding.
  Every reading of the clock and every call is numbered (the field \<open>steps\<close> of the world
  below), and the environment answers the \<open>k\<close>-th interaction as it likes, so repeated
  calls with the same arguments may differ. \<^verbatim>\<open>getTwitchToken\<close> (token caching) is taken
  as one such call that returns a token or throws. The setters of \<^verbatim>\<open>EmbedBuilder\<close>
  (discord.js) validate their argument and throw when they refuse it; what they refuse is
  the library's business, so \<open>embedBuilder\<close> gives, for a setter call, the exception it
  throws, if any.
\<close>

record env =
  DISCORD_ROLE :: "string option"
  dateNow :: "nat \<Rightarrow> int"
  getTwitchToken :: "nat \<Rightarrow> Error + string"
  fetchUsers :: "nat \<Rightarrow> string \<Rightarrow> string \<Rightarrow> Error + string response"
  fetchStreams :: "nat \<Rightarrow> string \<Rightarrow> string \<Rightarrow> Error + IStreamData response"
  send :: "nat \<Rightarrow> string \<Rightarrow> Embed \<Rightarrow> Error + string"
  editMessage :: "nat \<Rightarrow> string \<Rightarrow> string \<Rightarrow> Embed \<Rightarrow> Error + unit"
  embedBuilder :: "builder_call \<Rightarrow> Error option"
  sqliteError :: "string \<Rightarrow> Error"

text \<open>
  The world: the database, the number of interactions with the environment so far, and
  the calls made on the webhook client, each with the database as it was when the call
  was made (so that the order of store writes and webhook calls can be read off).
\<close>

record world =
  db :: database
  steps :: nat
  webhook :: "(webhook_call \<times> database) list"

definition tick :: "world \<Rightarrow> world" where
  "tick w = w\<lparr>steps := Suc (steps w)\<rparr>"

definition Date_now :: "env \<Rightarrow> world \<Rightarrow> int \<times> world" where
  "Date_now e w = (dateNow e (steps w), tick w)"

section \<open>Strings\<close>

text \<open>\<^verbatim>\<open>String.prototype.replace\<close> with a string pattern: the first occurrence only. The
  replacements used by the program (\<^verbatim>\<open>"1280"\<close>, \<^verbatim>\<open>"720"\<close>) hold no \<^verbatim>\<open>$\<close> pattern.\<close>

fun replace :: "string \<Rightarrow> string \<Rightarrow> string \<Rightarrow> string" where
  "replace pat rep [] = (if pat = [] then rep else [])"
| "replace pat rep (c # cs) =
     (if take (length pat) (c # cs) = pat then rep @ drop (length pat) (c # cs)
      else c # replace pat rep cs)"

text \<open>The decimal rendering of an integer-valued number in a template literal.\<close>

function decimal :: "int \<Rightarrow> string" where
  "decimal n =
     (if n < 10 then [''0123456789'' ! nat n]
      else decimal (n div 10) @ [''0123456789'' ! nat (n mod 10)])"
  by pat_completeness auto

termination decimal
  by (relation "measure nat") auto

declare decimal.simps [simp del]

definition string_of_int :: "int \<Rightarrow> string" where
  "string_of_int i = (if i < 0 then CHR ''-'' # decimal (- i) else decimal i)"

definition isDigit :: "char \<Rightarrow> bool" where
  "isDigit c = (c \<in> set ''0123456789'')"

definition digitValue :: "char \<Rightarrow> nat" where
  "digitValue c = of_char c - 48"

definition parseInt :: "string \<Rightarrow> int" where
  "parseInt ds = int (foldl (\<lambda>acc c. 10 * acc + digitValue c) 0 ds)"

fun split :: "char \<Rightarrow> string \<Rightarrow> string list" where
  "split sep [] = [[]]"
| "split sep (c # cs) =
     (if c = sep then [] # split sep cs
      else (case split sep cs of [] \<Rightarrow> [[c]] | l # ls \<Rightarrow> (c # l) # ls))"

section \<open>Error logging (parseErrorLine, logError)\<close>

text \<open>
  \<^verbatim>\<open>secondLine.match(/:(\d+):\d+\)?$/)\<close>: the line must end with a colon, digits, a
  colon, digits and at most one closing parenthesis; the first group of digits is the
  line number. The match is read from the end of the line, where the pattern is anchored.
\<close>

definition matchLine :: "string \<Rightarrow> string option" where
  "matchLine secondLine =
     (let r = rev secondLine;
          r1 = (case r of c # cs \<Rightarrow> if c = CHR '')'' then cs else r | [] \<Rightarrow> r);
          col = takeWhile isDigit r1;
          r2 = dropWhile isDigit r1
      in if col = [] then None
         else (case r2 of
                 [] \<Rightarrow> None
               | c # r3 \<Rightarrow>
                   if c \<noteq> CHR '':'' then None
                   else (let ln = takeWhile isDigit r3; r4 = dropWhile isDigit r3
                         in if ln = [] then None
                            else (case r4 of
                                    [] \<Rightarrow> None
                                  | c' # _ \<Rightarrow> if c' = CHR '':'' then Some (rev ln) else None))))"

definition parseErrorLine :: "string option \<Rightarrow> int option" where
  "parseErrorLine stk =
     (case stk of
        None \<Rightarrow> None
      | Some s \<Rightarrow>
          if s = [] then None
          else (let lines = split (CHR 0x0A) s;
                    secondLine = (if 1 < length lines then lines ! 1 else [])
                in map_option parseInt (matchLine secondLine)))"

definition nextRowid :: "int list \<Rightarrow> int" where
  "nextRowid ids = (case ids of [] \<Rightarrow> 1 | i # is \<Rightarrow> fold max is i + 1)"

definition insertErrorLog ::
  "int \<Rightarrow> string \<Rightarrow> string \<Rightarrow> int option \<Rightarrow> string \<Rightarrow> database \<Rightarrow> database" where
  "insertErrorLog ts errType desc lineNum trc d =
     d\<lparr>ErrorLog := ErrorLog d @
        [\<lparr>id' = nextRowid (map id' (ErrorLog d)), timestamp = ts, errorType = errType,
          description = Some desc, line = lineNum, trace = Some trc\<rparr>]\<rparr>"

definition logError :: "env \<Rightarrow> Error \<Rightarrow> string \<Rightarrow> world \<Rightarrow> world" where
  "logError e err errType w =
     (let (ts, w1) = Date_now e w;
          desc = message err;
          stk = stack err;
          lineNum = parseErrorLine stk
      in w1\<lparr>db := insertErrorLog ts errType desc lineNum (case stk of None \<Rightarrow> [] | Some s \<Rightarrow> s) (db w1)\<rparr>)"

section \<open>Store operations (the SQL statements of index.ts)\<close>

text \<open>
  \<^verbatim>\<open>.get()\<close> returns the first matching row or null. An insert takes the next rowid.
  \<^verbatim>\<open>Channels.channelID\<close> is the primary key, so inserting an id that is already there
  throws. \<^verbatim>\<open>UPDATE ... WHERE rowid = ?\<close> rewrites every row with that rowid. Other
  failures of the storage layer (I/O) are not modelled.
\<close>

definition selectChannel :: "string \<Rightarrow> database \<Rightarrow> IChannelRow option" where
  "selectChannel name d = find (\<lambda>r. channelName r = name) (Channels d)"

definition insertChannel :: "env \<Rightarrow> string \<Rightarrow> string \<Rightarrow> database \<Rightarrow> Error + database" where
  "insertChannel e name cid d =
     (if cid \<in> set (map channelID (Channels d))
      then Inl (sqliteError e ''UNIQUE constraint failed: Channels.channelID'')
      else Inr (d\<lparr>Channels := Channels d @ [\<lparr>channelName = name, channelID = cid\<rparr>]\<rparr>))"

definition selectOpenSession :: "string \<Rightarrow> database \<Rightarrow> IChannelDataRow option" where
  "selectOpenSession cid d = find (\<lambda>r. channel r = cid \<and> endTime r = None) (ChannelData d)"

definition insertChannelData ::
  "string \<Rightarrow> int \<Rightarrow> string \<Rightarrow> string \<Rightarrow> string \<Rightarrow> int \<Rightarrow> database \<Rightarrow> database" where
  "insertChannelData cid start mid mlink thumb lastUpd d =
     d\<lparr>ChannelData := ChannelData d @
        [\<lparr>rowid = nextRowid (map rowid (ChannelData d)), channel = cid, startTime = start,
          endTime = None, messageID = Some mid, messageLink = Some mlink,
          thumbnailURL = Some thumb, lastThumbUpdate = Some lastUpd\<rparr>]\<rparr>"

definition updateLastThumbUpdate :: "int \<Rightarrow> int \<Rightarrow> database \<Rightarrow> database" where
  "updateLastThumbUpdate t rid d =
     d\<lparr>ChannelData :=
        map (\<lambda>r. if rowid r = rid then r\<lparr>lastThumbUpdate := Some t\<rparr> else r) (ChannelData d)\<rparr>"

definition updateEndTime :: "int \<Rightarrow> int \<Rightarrow> database \<Rightarrow> database" where
  "updateEndTime t rid d =
     d\<lparr>ChannelData :=
        map (\<lambda>r. if rowid r = rid then r\<lparr>endTime := Some t\<rparr> else r) (ChannelData d)\<rparr>"

definition insertMessageHistory ::
  "string \<Rightarrow> string \<Rightarrow> int \<Rightarrow> int \<Rightarrow> string option \<Rightarrow> string option \<Rightarrow> string
     \<Rightarrow> database \<Rightarrow> database" where
  "insertMessageHistory cid dur start end' mid mlink vlink d =
     d\<lparr>MessageHistory := MessageHistory d @
        [\<lparr>IMessageHistoryRow.rowid = nextRowid (map IMessageHistoryRow.rowid (MessageHistory d)),
          channel = cid, vodDuration = Some dur, startTime = start, endTime = end',
          messageID = mid, messageLink = mlink, vodLink = Some vlink\<rparr>]\<rparr>"

section \<open>Twitch helpers (fetchChannelID, fetchIsLive)\<close>

text \<open>The items of the users response are represented by their \<^verbatim>\<open>id\<close> member.\<close>

definition fetchChannelID :: "env \<Rightarrow> string \<Rightarrow> world \<Rightarrow> (Error + string option) \<times> world" where
  "fetchChannelID e name w =
     (case getTwitchToken e (steps w) of
        Inl err \<Rightarrow> (Inl err, tick w)
      | Inr token \<Rightarrow>
          (let url = ''https://api.twitch.tv/helix/users?login='' @ name;
               w1 = tick w
           in case fetchUsers e (steps w1) url token of
                Inl err \<Rightarrow> (Inl err, tick w1)
              | Inr resp \<Rightarrow>
                  if \<not> ok resp then (Inr None, tick w1)
                  else (case json resp of
                          Inl err \<Rightarrow> (Inl err, tick w1)
                        | Inr data \<Rightarrow>
                            (case data of
                               Some (u # _) \<Rightarrow> (Inr (Some u), tick w1)
                             | _ \<Rightarrow> (Inr None, tick w1)))))"

definition fetchIsLive :: "env \<Rightarrow> string \<Rightarrow> world \<Rightarrow> (Error + IStreamData option) \<times> world" where
  "fetchIsLive e cid w =
     (case getTwitchToken e (steps w) of
        Inl err \<Rightarrow> (Inl err, tick w)
      | Inr token \<Rightarrow>
          (let url = ''https://api.twitch.tv/helix/streams?user_id='' @ cid;
               w1 = tick w
           in case fetchStreams e (steps w1) url token of
                Inl err \<Rightarrow> (Inl err, tick w1)
              | Inr resp \<Rightarrow>
                  if \<not> ok resp then (Inr None, tick w1)
                  else (case json resp of
                          Inl err \<Rightarrow> (Inl err, tick w1)
                        | Inr data \<Rightarrow>
                            (case data of
                               Some (sd # _) \<Rightarrow> (Inr (Some sd), tick w1)
                             | _ \<Rightarrow> (Inr None, tick w1)))))"

section \<open>The lifecycle engine (checkAllChannels)\<close>

definition THUMBNAIL_REFRESH_INTERVAL :: int where
  "THUMBNAIL_REFRESH_INTERVAL = 10 * 60 * 1000"

definition content :: "env \<Rightarrow> string" where
  "content e =
     (case DISCORD_ROLE e of
        None \<Rightarrow> []
      | Some r \<Rightarrow> if r = [] then [] else ''<@&'' @ r @ ''>'')"

text \<open>A chain of setter calls stops at the first one that throws.\<close>

fun runSetters :: "env \<Rightarrow> builder_call list \<Rightarrow> Error option" where
  "runSetters e [] = None"
| "runSetters e (c # cs) =
     (case embedBuilder e c of Some err \<Rightarrow> Some err | None \<Rightarrow> runSetters e cs)"

text \<open>
  The "is LIVE" embed is built by the same chain of setters in branch [A] and in the
  thumbnail refresh: title, field, URL, description and colour first (\<open>liveSetters\<close>),
  then the timestamp and the image. \<open>liveEmbed\<close> is the embed the chain yields when no
  setter throws. Its texts come from Twitch and from the store, so the setters may refuse
  them. The "finished streaming" embed of Stop (\<open>endedEmbed\<close>) gets a title and a
  description that the program composes from the channel name, the formatted duration
  and the replay link, a constant colour and a date; its setters are taken to accept them.
\<close>

definition liveSetters :: "IStreamData \<Rightarrow> builder_call list" where
  "liveSetters sd =
     [SetTitle (user_name sd @ '' is LIVE''),
      AddFields [\<lparr>fieldName = ''Game'', fieldValue = game_name sd, fieldInline = True\<rparr>],
      SetURL (''https://twitch.tv/'' @ user_login sd),
      SetDescription (''## '' @ title sd),
      SetColor 0x9146ff]"

definition liveEmbed :: "IStreamData \<Rightarrow> int \<Rightarrow> string \<Rightarrow> Embed" where
  "liveEmbed sd ts img =
     \<lparr>embTitle = user_name sd @ '' is LIVE'',
      embFields = [\<lparr>fieldName = ''Game'', fieldValue = game_name sd, fieldInline = True\<rparr>],
      embURL = Some (''https://twitch.tv/'' @ user_login sd),
      embDescription = ''## '' @ title sd,
      embColor = 0x9146ff,
      embTimestamp = ts,
      embImage = Some img\<rparr>"

definition endedEmbed :: "string \<Rightarrow> string \<Rightarrow> string \<Rightarrow> int \<Rightarrow> Embed" where
  "endedEmbed name dur vlink end' =
     \<lparr>embTitle = name @ '' just finished streaming!'',
      embFields = [],
      embURL = None,
      embDescription = ''Streamed for **'' @ dur @ ''**.'' @ [CHR 0x0A] @ ''VOD link: [Click Here]('' @ vlink @ '')'',
      embColor = 0xff0000,
      embTimestamp = end',
      embImage = None\<rparr>"

text \<open>
  The duration of a finished stream. JavaScript numbers are doubles; the model computes
  with exact reals, which gives the same floors for every difference of two
  \<^verbatim>\<open>Date.now()\<close> readings. \<^verbatim>\<open>%\<close> is the remainder of the truncated quotient.
\<close>

definition jsRemainder :: "real \<Rightarrow> real \<Rightarrow> real" where
  "jsRemainder x y = x - y * of_int (if x / y < 0 then \<lceil>x / y\<rceil> else \<lfloor>x / y\<rfloor>)"

definition formatVodDuration :: "int \<Rightarrow> string" where
  "formatVodDuration durationMs =
     (let durationHours = \<lfloor>real_of_int durationMs / 1000 / 60 / 60\<rfloor>;
          durationMinutes = \<lfloor>jsRemainder (real_of_int durationMs / 1000 / 60) 60\<rfloor>
      in if durationHours \<le> 0 then string_of_int durationMinutes @ ''m''
         else string_of_int durationHours @ ''h '' @ string_of_int durationMinutes @ ''m'')"

text \<open>Step 1 of the loop body: the channel id from the table, or from Twitch and then
  inserted. \<open>Inr None\<close> is the \<^verbatim>\<open>continue\<close>.\<close>

definition registerChannel :: "env \<Rightarrow> string \<Rightarrow> world \<Rightarrow> (Error + string option) \<times> world" where
  "registerChannel e name w =
     (case fetchChannelID e name w of
        (Inl err, w1) \<Rightarrow> (Inl err, w1)
      | (Inr None, w1) \<Rightarrow> (Inr None, w1)
      | (Inr (Some fetchedID), w1) \<Rightarrow>
          if fetchedID = [] then (Inr None, w1)
          else (case insertChannel e name fetchedID (db w1) of
                  Inl err \<Rightarrow> (Inl err, w1)
                | Inr d \<Rightarrow> (Inr (Some fetchedID), w1\<lparr>db := d\<rparr>)))"

definition ensureChannel :: "env \<Rightarrow> string \<Rightarrow> world \<Rightarrow> (Error + string option) \<times> world" where
  "ensureChannel e name w =
     (case selectChannel name (db w) of
        None \<Rightarrow> registerChannel e name w
      | Some row \<Rightarrow>
          if channelID row = [] then registerChannel e name w
          else (Inr (Some (channelID row)), w))"

text \<open>Branch [A]: a brand-new live session. The embed is built before the send: a setter
  that throws, like a throwing \<^verbatim>\<open>send\<close>, leaves the branch, and nothing is stored.\<close>

definition startSession ::
  "env \<Rightarrow> string \<Rightarrow> string \<Rightarrow> IStreamData \<Rightarrow> string \<Rightarrow> world \<Rightarrow> Error option \<times> world" where
  "startSession e name cid sd baseThumbUrl w =
     (let (start, w1) = Date_now e w
      in case runSetters e (liveSetters sd @ [SetTimestamp start]) of
           Some err \<Rightarrow> (Some err, w1)
         | None \<Rightarrow>
             (let (t, w2) = Date_now e w1;
                  image = baseThumbUrl @ ''?t='' @ string_of_int t
              in case embedBuilder e (SetImage image) of
                   Some err \<Rightarrow> (Some err, w2)
                 | None \<Rightarrow>
                     (let embed = liveEmbed sd start image;
                          w3 = tick (w2\<lparr>webhook := webhook w2 @ [(Send (content e) embed, db w2)]\<rparr>)
                      in case send e (steps w2) (content e) embed of
                           Inl err \<Rightarrow> (Some err, w3)
                         | Inr mid \<Rightarrow>
                             (let mlink = ''https://discord.com/channels/.../'' @ mid;
                                  (t', w4) = Date_now e w3
                              in (None, w4\<lparr>db := insertChannelData cid start mid mlink
                                                     baseThumbUrl t' (db w4)\<rparr>)))))"

text \<open>Branch [B]: the channel is still live; the time-based thumbnail refresh. The embed
  is built before the inner \<^verbatim>\<open>try\<close>: a setter that throws leaves the branch (\<open>Some err\<close>);
  a throwing edit is caught inside.\<close>

definition stillLive ::
  "env \<Rightarrow> IStreamData \<Rightarrow> IChannelDataRow \<Rightarrow> world \<Rightarrow> Error option \<times> world" where
  "stillLive e sd row w =
     (case thumbnailURL row of
        None \<Rightarrow> (None, w)
      | Some thumb \<Rightarrow>
          if thumb = [] then (None, w)
          else (let (now, w1) = Date_now e w;
                    elapsedSinceLastUpdate =
                      now - (case lastThumbUpdate row of None \<Rightarrow> 0 | Some t \<Rightarrow> t)
                in if elapsedSinceLastUpdate \<ge> THUMBNAIL_REFRESH_INTERVAL
                   then (case runSetters e (liveSetters sd) of
                           Some err \<Rightarrow> (Some err, w1)
                         | None \<Rightarrow>
                             (let (ts, w2) = Date_now e w1;
                                  image = thumb @ ''?t='' @ string_of_int now
                              in case runSetters e [SetTimestamp ts, SetImage image] of
                                   Some err \<Rightarrow> (Some err, w2)
                                 | None \<Rightarrow>
                                     (let updatedEmbed = liveEmbed sd ts image;
                                          mid = (case messageID row of None \<Rightarrow> [] | Some m \<Rightarrow> m);
                                          w3 = tick (w2\<lparr>webhook := webhook w2 @
                                                 [(EditMessage mid (content e) updatedEmbed, db w2)]\<rparr>)
                                      in case editMessage e (steps w2) mid (content e) updatedEmbed of
                                           Inl err \<Rightarrow> (None, logError e err ''ThumbnailRefresh'' w3)
                                         | Inr _ \<Rightarrow>
                                             (None, w3\<lparr>db := updateLastThumbUpdate now (rowid row)
                                                                (db w3)\<rparr>))))
                   else (None, w1)))"

text \<open>The channel is not live but has an open row: the stream has stopped.\<close>

definition stopSession :: "env \<Rightarrow> string \<Rightarrow> string \<Rightarrow> IChannelDataRow \<Rightarrow> world \<Rightarrow> world" where
  "stopSession e name cid row w =
     (let (end', w1) = Date_now e w;
          w2 = w1\<lparr>db := updateEndTime end' (rowid row) (db w1)\<rparr>;
          durationMs = end' - startTime row;
          dur = formatVodDuration durationMs;
          vlink = ''https://www.twitch.tv/'' @ name @ ''/videos'';
          w3 = w2\<lparr>db := insertMessageHistory cid dur (startTime row) end'
                        (messageID row) (messageLink row) vlink (db w2)\<rparr>;
          newEmbed = endedEmbed name dur vlink end';
          mid = (case messageID row of None \<Rightarrow> [] | Some m \<Rightarrow> m);
          w4 = tick (w3\<lparr>webhook := webhook w3 @ [(EditMessage mid (content e) newEmbed, db w3)]\<rparr>)
      in case editMessage e (steps w3) mid (content e) newEmbed of
           Inl err \<Rightarrow> logError e err ''StreamEndUpdate'' w4
         | Inr _ \<Rightarrow> w4)"

text \<open>The body of the \<^verbatim>\<open>try\<close> in the loop: \<open>Some err\<close> is an exception that leaves it.\<close>

definition channelBody :: "env \<Rightarrow> string \<Rightarrow> world \<Rightarrow> Error option \<times> world" where
  "channelBody e name w =
     (case ensureChannel e name w of
        (Inl err, w1) \<Rightarrow> (Some err, w1)
      | (Inr None, w1) \<Rightarrow> (None, w1)
      | (Inr (Some cid), w1) \<Rightarrow>
          (case fetchIsLive e cid w1 of
             (Inl err, w2) \<Rightarrow> (Some err, w2)
           | (Inr streamData, w2) \<Rightarrow>
               (let currentStreamRow = selectOpenSession cid (db w2)
                in case streamData of
                     Some sd \<Rightarrow>
                       (let baseThumbUrl =
                              replace ''{height}'' ''720''
                                (replace ''{width}'' ''1280'' (thumbnail_url sd))
                        in case currentStreamRow of
                             None \<Rightarrow> startSession e name cid sd baseThumbUrl w2
                           | Some row \<Rightarrow> stillLive e sd row w2)
                   | None \<Rightarrow>
                       (case currentStreamRow of
                          Some row \<Rightarrow> (None, stopSession e name cid row w2)
                        | None \<Rightarrow> (None, w2)))))"

definition checkChannel :: "env \<Rightarrow> string \<Rightarrow> world \<Rightarrow> world" where
  "checkChannel e name w =
     (case channelBody e name w of
        (Some err, w1) \<Rightarrow> logError e err ''checkAllChannels'' w1
      | (None, w1) \<Rightarrow> w1)"

fun checkAllChannels :: "env \<Rightarrow> string list \<Rightarrow> world \<Rightarrow> world" where
  "checkAllChannels e [] w = w"
| "checkAllChannels e (name # rest) w = checkAllChannels e rest (checkChannel e name w)"

text \<open>\<^verbatim>\<open>mainLoop\<close> reschedules itself for ever; the model runs a given number of ticks.
  No exception leaves \<open>checkAllChannels\<close> in this model (every iteration ends in its own
  \<^verbatim>\<open>catch\<close>), so the \<^verbatim>\<open>catch\<close> of \<^verbatim>\<open>mainLoop\<close> is never entered.\<close>

fun mainLoop :: "env \<Rightarrow> string list \<Rightarrow> nat \<Rightarrow> world \<Rightarrow> world" where
  "mainLoop e channels 0 w = w"
| "mainLoop e channels (Suc n) w = mainLoop e channels n (checkAllChannels e channels w)"

definition emptyDatabase :: database where
  "emptyDatabase = \<lparr>Channels = [], ChannelData = [], MessageHistory = [], ErrorLog = []\<rparr>"

definition startBot :: world where
  "startBot = \<lparr>db = emptyDatabase, steps = 0, webhook = []\<rparr>"

section \<open>Properties as the specification words them\<close>

text \<open>At most one open session (a row with no end time) per channel.\<close>

definition oneOpenSessionPerChannel :: "database \<Rightarrow> bool" where
  "oneOpenSessionPerChannel d =
     distinct (map channel (filter (\<lambda>r. endTime r = None) (ChannelData d)))"

text \<open>Hours plus minutes, the hour component omitted when it is zero.\<close>

definition hoursAndMinutes :: "int \<Rightarrow> string" where
  "hoursAndMinutes ms =
     (let h = ms div 3600000; m = (ms div 60000) mod 60
      in if h = 0 then string_of_int m @ ''m''
         else string_of_int h @ ''h '' @ string_of_int m @ ''m'')"

text \<open>Every closed session ends no earlier than it started.\<close>

definition endNotBeforeStart :: "database \<Rightarrow> bool" where
  "endNotBeforeStart d =
     (\<forall>r \<in> set (ChannelData d). case endTime r of None \<Rightarrow> True | Some t \<Rightarrow> startTime r \<le> t)"

text \<open>From \<open>d\<close> to \<open>d'\<close> every closed session is kept as it is: its end time, once set, is
  neither changed nor unset (nor is anything else of the row).\<close>

definition closedSessionsKept :: "database \<Rightarrow> database \<Rightarrow> bool" where
  "closedSessionsKept d d' =
     (\<forall>i < length (ChannelData d).
        endTime (ChannelData d ! i) \<noteq> None \<longrightarrow>
        i < length (ChannelData d') \<and> ChannelData d' ! i = ChannelData d ! i)"

text \<open>A clock that never runs backwards.\<close>

definition nonDecreasingClock :: "env \<Rightarrow> bool" where
  "nonDecreasingClock e = (\<forall>i j. i \<le> j \<longrightarrow> dateNow e i \<le> dateNow e j)"

section \<open>The scenario of the specification as concrete inputs\<close>

definition T0 :: int where
  "T0 = 1700000000000"

definition nova :: IStreamData where
  "nova = \<lparr>user_id = ''42'', user_login = ''nova'', user_name = ''Nova'', type = ''live'',
            title = ''Launch Day'', started_at = ''2023-11-14T22:13:20Z'',
            thumbnail_url = ''https://x/{width}x{height}.jpg'', game_name = ''IRL''\<rparr>"

definition networkError :: Error where
  "networkError =
     \<lparr>message = ''fetch failed'',
      stack = Some (''TypeError: fetch failed'' @ [CHR 0x0A] @ ''    at fetchIsLive (/app/src/index.ts:191:22)'')\<rparr>"

definition liveStreams :: "nat \<Rightarrow> string \<Rightarrow> string \<Rightarrow> Error + IStreamData response" where
  "liveStreams k url token = Inr \<lparr>ok = True, json = Inr (Some [nova])\<rparr>"

definition liveWithoutThumbnail :: "nat \<Rightarrow> string \<Rightarrow> string \<Rightarrow> Error + IStreamData response" where
  "liveWithoutThumbnail k url token = Inr \<lparr>ok = True, json = Inr (Some [nova\<lparr>thumbnail_url := []\<rparr>])\<rparr>"

definition offlineStreams :: "nat \<Rightarrow> string \<Rightarrow> string \<Rightarrow> Error + IStreamData response" where
  "offlineStreams k url token = Inr \<lparr>ok = True, json = Inr (Some [])\<rparr>"

definition unknownStreams :: "nat \<Rightarrow> string \<Rightarrow> string \<Rightarrow> Error + IStreamData response" where
  "unknownStreams k url token = Inr \<lparr>ok = False, json = Inr None\<rparr>"

definition throwingStreams :: "nat \<Rightarrow> string \<Rightarrow> string \<Rightarrow> Error + IStreamData response" where
  "throwingStreams k url token = Inl networkError"

definition editSucceeds :: "nat \<Rightarrow> string \<Rightarrow> string \<Rightarrow> Embed \<Rightarrow> Error + unit" where
  "editSucceeds k mid c emb = Inr ()"

definition acceptsAll :: "builder_call \<Rightarrow> Error option" where
  "acceptsAll c = None"

text \<open>A builder that, like discord.js, refuses an image that is not an http(s) URL.\<close>

definition invalidImage :: Error where
  "invalidImage = \<lparr>message = ''Invalid URL'', stack = None\<rparr>"

definition imageMustBeURL :: "builder_call \<Rightarrow> Error option" where
  "imageMustBeURL c =
     (case c of
        SetImage url \<Rightarrow>
          if take 7 url = ''http://'' \<or> take 8 url = ''https://'' then None
          else Some invalidImage
      | _ \<Rightarrow> None)"

definition sendFails :: "nat \<Rightarrow> string \<Rightarrow> Embed \<Rightarrow> Error + string" where
  "sendFails k c emb = Inl networkError"

definition editFails :: "nat \<Rightarrow> string \<Rightarrow> string \<Rightarrow> Embed \<Rightarrow> Error + unit" where
  "editFails k mid c emb = Inl networkError"

text \<open>An environment whose clock stands at \<open>t\<close>, with the given answers of the streams
  endpoint and of \<^verbatim>\<open>editMessage\<close>.\<close>

definition scenarioEnv ::
  "int \<Rightarrow> (nat \<Rightarrow> string \<Rightarrow> string \<Rightarrow> Error + IStreamData response)
     \<Rightarrow> (nat \<Rightarrow> string \<Rightarrow> string \<Rightarrow> Embed \<Rightarrow> Error + unit) \<Rightarrow> env" where
  "scenarioEnv t streams edit =
     \<lparr>DISCORD_ROLE = None,
      dateNow = (\<lambda>k. t),
      getTwitchToken = (\<lambda>k. Inr ''token''),
      fetchUsers = (\<lambda>k url token. Inr \<lparr>ok = True, json = Inr (Some [''42''])\<rparr>),
      fetchStreams = streams,
      send = (\<lambda>k c emb. Inr ''m1''),
      editMessage = edit,
      embedBuilder = acceptsAll,
      sqliteError = (\<lambda>msg. \<lparr>message = msg, stack = None\<rparr>)\<rparr>"

text \<open>An environment whose clock advances by a minute at every interaction and whose
  streams endpoint reports \<open>nova\<close> live during the first tick and offline afterwards.\<close>

definition liveThenOffline :: "nat \<Rightarrow> string \<Rightarrow> string \<Rightarrow> Error + IStreamData response" where
  "liveThenOffline k url token = (if k < 5 then liveStreams k url token else offlineStreams k url token)"

definition tickingEnv :: env where
  "tickingEnv =
     \<lparr>DISCORD_ROLE = None,
      dateNow = (\<lambda>k. T0 + 60000 * int k),
      getTwitchToken = (\<lambda>k. Inr ''token''),
      fetchUsers = (\<lambda>k url token. Inr \<lparr>ok = True, json = Inr (Some [''42''])\<rparr>),
      fetchStreams = liveThenOffline,
      send = (\<lambda>k c emb. Inr ''m1''),
      editMessage = editSucceeds,
      embedBuilder = acceptsAll,
      sqliteError = (\<lambda>msg. \<lparr>message = msg, stack = None\<rparr>)\<rparr>"

definition novaSession :: IChannelDataRow where
  "novaSession =
     \<lparr>rowid = 1, channel = ''42'', startTime = T0, endTime = None, messageID = Some ''m1'',
      messageLink = Some ''https://discord.com/channels/.../m1'',
      thumbnailURL = Some ''https://x/1280x720.jpg'', lastThumbUpdate = Some T0\<rparr>"

definition worldWith :: "IChannelDataRow list \<Rightarrow> world" where
  "worldWith sessions =
     \<lparr>db = \<lparr>Channels = [\<lparr>channelName = ''nova'', channelID = ''42''\<rparr>],
             ChannelData = sessions, MessageHistory = [], ErrorLog = []\<rparr>,
      steps = 8, webhook = []\<rparr>"

section \<open>Effects of the helpers\<close>

lemma tick_simps [simp]:
  "db (tick w) = db w" "webhook (tick w) = webhook w" "steps (tick w) = Suc (steps w)"
  by (simp_all add: tick_def)

lemma insertErrorLog_simps [simp]:
  "Channels (insertErrorLog ts ty d l t x) = Channels x"
  "ChannelData (insertErrorLog ts ty d l t x) = ChannelData x"
  "MessageHistory (insertErrorLog ts ty d l t x) = MessageHistory x"
  by (simp_all add: insertErrorLog_def)

lemma store_update_simps [simp]:
  "Channels (insertChannelData c st m ml th lu d) = Channels d"
  "ChannelData (insertChannelData c st m ml th lu d) = ChannelData d @
     [\<lparr>rowid = nextRowid (map rowid (ChannelData d)), channel = c, startTime = st,
       endTime = None, messageID = Some m, messageLink = Some ml,
       thumbnailURL = Some th, lastThumbUpdate = Some lu\<rparr>]"
  "MessageHistory (insertChannelData c st m ml th lu d) = MessageHistory d"
  "ErrorLog (insertChannelData c st m ml th lu d) = ErrorLog d"
  "Channels (updateLastThumbUpdate t rid d) = Channels d"
  "ChannelData (updateLastThumbUpdate t rid d) =
     map (\<lambda>r. if rowid r = rid then r\<lparr>lastThumbUpdate := Some t\<rparr> else r) (ChannelData d)"
  "MessageHistory (updateLastThumbUpdate t rid d) = MessageHistory d"
  "ErrorLog (updateLastThumbUpdate t rid d) = ErrorLog d"
  "Channels (updateEndTime t rid d) = Channels d"
  "ChannelData (updateEndTime t rid d) =
     map (\<lambda>r. if rowid r = rid then r\<lparr>endTime := Some t\<rparr> else r) (ChannelData d)"
  "MessageHistory (updateEndTime t rid d) = MessageHistory d"
  "ErrorLog (updateEndTime t rid d) = ErrorLog d"
  "Channels (insertMessageHistory c du st en mo mlo vl d) = Channels d"
  "ChannelData (insertMessageHistory c du st en mo mlo vl d) = ChannelData d"
  "MessageHistory (insertMessageHistory c du st en mo mlo vl d) = MessageHistory d @
     [\<lparr>IMessageHistoryRow.rowid = nextRowid (map IMessageHistoryRow.rowid (MessageHistory d)),
       channel = c, vodDuration = Some du, startTime = st, endTime = en,
       messageID = mo, messageLink = mlo, vodLink = Some vl\<rparr>]"
  "ErrorLog (insertMessageHistory c du st en mo mlo vl d) = ErrorLog d"
  by (simp_all add: insertChannelData_def updateLastThumbUpdate_def updateEndTime_def
        insertMessageHistory_def)

lemma insertErrorLog_ErrorLog:
  "ErrorLog (insertErrorLog ts ty d l t x) = ErrorLog x @
     [\<lparr>id' = nextRowid (map id' (ErrorLog x)), timestamp = ts, errorType = ty,
       description = Some d, line = l, trace = Some t\<rparr>]"
  by (simp add: insertErrorLog_def)

lemma logError_simps [simp]:
  "db (logError e err ty w) =
     insertErrorLog (dateNow e (steps w)) ty (message err) (parseErrorLine (stack err))
       (case stack err of None \<Rightarrow> [] | Some s \<Rightarrow> s) (db w)"
  "steps (logError e err ty w) = Suc (steps w)"
  "webhook (logError e err ty w) = webhook w"
  by (simp_all add: logError_def Date_now_def Let_def)

lemma fetchIsLive_frame:
  assumes "fetchIsLive e cid w = (r, w')"
  shows "db w' = db w \<and> webhook w' = webhook w \<and> steps w < steps w'"
  using assms
  by (auto simp: fetchIsLive_def Let_def split: sum.splits if_splits option.splits list.splits)

lemma fetchChannelID_frame:
  assumes "fetchChannelID e name w = (r, w')"
  shows "db w' = db w \<and> webhook w' = webhook w \<and> steps w < steps w'"
  using assms
  by (auto simp: fetchChannelID_def Let_def split: sum.splits if_splits option.splits list.splits)

lemma registerChannel_frame:
  assumes "registerChannel e name w = (r, w')"
  shows "ChannelData (db w') = ChannelData (db w) \<and> MessageHistory (db w') = MessageHistory (db w)
    \<and> ErrorLog (db w') = ErrorLog (db w) \<and> webhook w' = webhook w \<and> steps w < steps w'"
proof (cases "fetchChannelID e name w")
  case (Pair r1 w1)
  from fetchChannelID_frame[OF Pair] Pair assms show ?thesis
    by (auto simp: registerChannel_def insertChannel_def split: sum.splits option.splits if_splits)
qed

lemma ensureChannel_frame:
  assumes "ensureChannel e name w = (r, w')"
  shows "ChannelData (db w') = ChannelData (db w) \<and> MessageHistory (db w') = MessageHistory (db w)
    \<and> ErrorLog (db w') = ErrorLog (db w) \<and> webhook w' = webhook w \<and> steps w \<le> steps w'"
  using assms registerChannel_frame[of e name w r w']
  by (auto simp: ensureChannel_def split: option.splits if_splits)

lemma ensureChannel_registered:
  assumes "selectChannel name (db w) = Some crow" "channelID crow \<noteq> []"
  shows "ensureChannel e name w = (Inr (Some (channelID crow)), w)"
  using assms by (simp add: ensureChannel_def)


lemma checkChannel_cases:
  assumes "ensureChannel e name w = (Inr (Some cid), w1)"
    and "fetchIsLive e cid w1 = (Inr streamData, w2)"
  shows "checkChannel e name w =
    (case streamData of
       Some sd \<Rightarrow>
         (case selectOpenSession cid (db w2) of
            None \<Rightarrow>
              (case startSession e name cid sd
                      (replace ''{height}'' ''720'' (replace ''{width}'' ''1280'' (thumbnail_url sd))) w2 of
                 (Some err, w3) \<Rightarrow> logError e err ''checkAllChannels'' w3
               | (None, w3) \<Rightarrow> w3)
          | Some row \<Rightarrow>
              (case stillLive e sd row w2 of
                 (Some err, w3) \<Rightarrow> logError e err ''checkAllChannels'' w3
               | (None, w3) \<Rightarrow> w3))
     | None \<Rightarrow>
         (case selectOpenSession cid (db w2) of
            Some row \<Rightarrow> stopSession e name cid row w2
          | None \<Rightarrow> w2))"
  using assms
  by (simp add: checkChannel_def channelBody_def Let_def split: option.splits)

lemma checkChannel_continue:
  assumes "ensureChannel e name w = (Inr None, w1)"
  shows "checkChannel e name w = w1"
  using assms by (simp add: checkChannel_def channelBody_def)

lemma checkChannel_resolve_throws:
  assumes "ensureChannel e name w = (Inl err, w1)"
  shows "checkChannel e name w = logError e err ''checkAllChannels'' w1"
  using assms by (simp add: checkChannel_def channelBody_def)

lemma checkChannel_oracle_throws:
  assumes "ensureChannel e name w = (Inr (Some cid), w1)"
    and "fetchIsLive e cid w1 = (Inl err, w2)"
  shows "checkChannel e name w = logError e err ''checkAllChannels'' w2"
  using assms by (simp add: checkChannel_def channelBody_def)

lemma runSetters_acceptsAll:
  assumes "embedBuilder e = acceptsAll"
  shows "runSetters e cs = None"
  using assms by (induction cs) (simp_all add: acceptsAll_def)

lemma stillLive_no_thumbnail:
  assumes "thumbnailURL row = None"
  shows "stillLive e sd row w = (None, w)"
  using assms by (simp add: stillLive_def)

lemma stillLive_empty_thumbnail:
  assumes "thumbnailURL row = Some []"
  shows "stillLive e sd row w = (None, w)"
  using assms by (simp add: stillLive_def)

lemma stillLive_before_interval:
  assumes "thumbnailURL row = Some thumb" "thumb \<noteq> []"
    and "dateNow e (steps w) - (case lastThumbUpdate row of None \<Rightarrow> 0 | Some t \<Rightarrow> t)
           < THUMBNAIL_REFRESH_INTERVAL"
  shows "stillLive e sd row w = (None, tick w)"
  using assms by (simp add: stillLive_def Date_now_def Let_def)

lemma stillLive_refresh:
  assumes "thumbnailURL row = Some thumb" "thumb \<noteq> []"
    and "dateNow e (steps w) - (case lastThumbUpdate row of None \<Rightarrow> 0 | Some t \<Rightarrow> t)
           \<ge> THUMBNAIL_REFRESH_INTERVAL"
    and "runSetters e (liveSetters sd) = None"
    and "runSetters e [SetTimestamp (dateNow e (Suc (steps w))),
                       SetImage (thumb @ ''?t='' @ string_of_int (dateNow e (steps w)))] = None"
  shows "stillLive e sd row w =
    (let now = dateNow e (steps w);
         updatedEmbed = liveEmbed sd (dateNow e (Suc (steps w))) (thumb @ ''?t='' @ string_of_int now);
         mid = (case messageID row of None \<Rightarrow> [] | Some m \<Rightarrow> m);
         w3 = w\<lparr>steps := Suc (Suc (Suc (steps w))),
                 webhook := webhook w @ [(EditMessage mid (content e) updatedEmbed, db w)]\<rparr>
     in case editMessage e (Suc (Suc (steps w))) mid (content e) updatedEmbed of
          Inl err \<Rightarrow> (None, logError e err ''ThumbnailRefresh'' w3)
        | Inr _ \<Rightarrow> (None, w3\<lparr>db := updateLastThumbUpdate now (rowid row) (db w)\<rparr>))"
  using assms
  by (simp add: stillLive_def Date_now_def Let_def tick_def del: runSetters.simps
        split: sum.splits)

text \<open>A setter that throws in the refresh: nothing was written and no edit was attempted.\<close>

lemma stillLive_throws:
  assumes "stillLive e sd row w = (Some err, w')"
  shows "db w' = db w \<and> webhook w' = webhook w \<and> steps w < steps w'
    \<and> (runSetters e (liveSetters sd) = Some err
        \<or> (\<exists>thumb. thumbnailURL row = Some thumb
              \<and> runSetters e [SetTimestamp (dateNow e (Suc (steps w))),
                     SetImage (thumb @ ''?t='' @ string_of_int (dateNow e (steps w)))] = Some err))"
  using assms
  by (auto simp: stillLive_def Date_now_def Let_def tick_def simp del: runSetters.simps
        split: option.splits if_splits sum.splits)

lemma stillLive_rejected:
  assumes "thumbnailURL row = Some thumb" "thumb \<noteq> []"
    and "dateNow e (steps w) - (case lastThumbUpdate row of None \<Rightarrow> 0 | Some t \<Rightarrow> t)
           \<ge> THUMBNAIL_REFRESH_INTERVAL"
    and "runSetters e (liveSetters sd) = Some err
         \<or> runSetters e (liveSetters sd) = None
           \<and> runSetters e [SetTimestamp (dateNow e (Suc (steps w))),
                SetImage (thumb @ ''?t='' @ string_of_int (dateNow e (steps w)))] = Some err"
  shows "\<exists>w'. stillLive e sd row w = (Some err, w') \<and> db w' = db w \<and> webhook w' = webhook w
            \<and> (steps w' = Suc (steps w) \<or> steps w' = Suc (Suc (steps w)))"
  using assms
  by (auto simp: stillLive_def Date_now_def Let_def tick_def simp del: runSetters.simps)

lemma stopSession_eq:
  "stopSession e name cid row w =
    (let end' = dateNow e (steps w);
         dur = formatVodDuration (end' - startTime row);
         vlink = ''https://www.twitch.tv/'' @ name @ ''/videos'';
         d3 = insertMessageHistory cid dur (startTime row) end' (messageID row) (messageLink row) vlink
                (updateEndTime end' (rowid row) (db w));
         mid = (case messageID row of None \<Rightarrow> [] | Some m \<Rightarrow> m);
         newEmbed = endedEmbed name dur vlink end';
         w4 = w\<lparr>db := d3, steps := Suc (Suc (steps w)),
                 webhook := webhook w @ [(EditMessage mid (content e) newEmbed, d3)]\<rparr>
     in case editMessage e (Suc (steps w)) mid (content e) newEmbed of
          Inl err \<Rightarrow> logError e err ''StreamEndUpdate'' w4
        | Inr _ \<Rightarrow> w4)"
  by (simp add: stopSession_def Date_now_def Let_def tick_def split: sum.splits)

lemma startSession_eq:
  assumes "runSetters e (liveSetters sd @ [SetTimestamp (dateNow e (steps w))]) = None"
    and "embedBuilder e (SetImage (base @ ''?t='' @ string_of_int (dateNow e (Suc (steps w))))) = None"
  shows "startSession e name cid sd base w =
    (let start = dateNow e (steps w);
         embed = liveEmbed sd start (base @ ''?t='' @ string_of_int (dateNow e (Suc (steps w))));
         calls = webhook w @ [(Send (content e) embed, db w)]
     in case send e (Suc (Suc (steps w))) (content e) embed of
          Inl err \<Rightarrow> (Some err, w\<lparr>steps := Suc (Suc (Suc (steps w))), webhook := calls\<rparr>)
        | Inr mid \<Rightarrow>
            (None, w\<lparr>db := insertChannelData cid start mid (''https://discord.com/channels/.../'' @ mid)
                             base (dateNow e (Suc (Suc (Suc (steps w))))) (db w),
                      steps := Suc (Suc (Suc (Suc (steps w)))), webhook := calls\<rparr>))"
  using assms
  by (simp add: startSession_def Date_now_def Let_def tick_def del: runSetters.simps
        split: sum.splits)

text \<open>A setter that throws in branch [A]: nothing was sent and nothing was written.\<close>

lemma startSession_rejected:
  assumes "runSetters e (liveSetters sd @ [SetTimestamp (dateNow e (steps w))]) = Some err
         \<or> runSetters e (liveSetters sd @ [SetTimestamp (dateNow e (steps w))]) = None
           \<and> embedBuilder e (SetImage (base @ ''?t='' @ string_of_int (dateNow e (Suc (steps w)))))
               = Some err"
  shows "\<exists>w'. startSession e name cid sd base w = (Some err, w') \<and> db w' = db w
            \<and> webhook w' = webhook w
            \<and> (steps w' = Suc (steps w) \<or> steps w' = Suc (Suc (steps w)))"
  using assms
  by (auto simp: startSession_def Date_now_def Let_def tick_def simp del: runSetters.simps)

section \<open>Still live without a stored thumbnail\<close>

text \<open>
  C10. A channel with an open session whose stored thumbnail URL is null, reported live:
  the iteration edits no message and writes nothing to the store (beyond the lazy
  registration of the channel in step 1, if it was needed), whatever the clock says.
\<close>

theorem live_without_thumbnail_is_noop:
  assumes "ensureChannel e name w = (Inr (Some cid), w1)"
    and "fetchIsLive e cid w1 = (Inr (Some sd), w2)"
    and "selectOpenSession cid (db w2) = Some row"
    and "thumbnailURL row = None"
  shows "db (checkChannel e name w) = db w1
       \<and> ChannelData (db (checkChannel e name w)) = ChannelData (db w)
       \<and> MessageHistory (db (checkChannel e name w)) = MessageHistory (db w)
       \<and> ErrorLog (db (checkChannel e name w)) = ErrorLog (db w)
       \<and> webhook (checkChannel e name w) = webhook w"
proof -
  have "checkChannel e name w = w2"
    using checkChannel_cases[OF assms(1,2)] assms(3,4) by (simp add: stillLive_no_thumbnail)
  with fetchIsLive_frame[OF assms(2)] ensureChannel_frame[OF assms(1)] show ?thesis by simp
qed

theorem live_without_thumbnail_is_noop_witness:
  "ensureChannel (scenarioEnv (T0 + 36000000) liveStreams editSucceeds) ''nova''
       (worldWith [novaSession\<lparr>thumbnailURL := None\<rparr>])
     = (Inr (Some ''42''), worldWith [novaSession\<lparr>thumbnailURL := None\<rparr>])
   \<and> fetchIsLive (scenarioEnv (T0 + 36000000) liveStreams editSucceeds) ''42''
       (worldWith [novaSession\<lparr>thumbnailURL := None\<rparr>])
     = (Inr (Some nova), tick (tick (worldWith [novaSession\<lparr>thumbnailURL := None\<rparr>])))
   \<and> selectOpenSession ''42'' (db (tick (tick (worldWith [novaSession\<lparr>thumbnailURL := None\<rparr>]))))
     = Some (novaSession\<lparr>thumbnailURL := None\<rparr>)
   \<and> thumbnailURL (novaSession\<lparr>thumbnailURL := None\<rparr>) = None
   \<and> db (checkChannel (scenarioEnv (T0 + 36000000) liveStreams editSucceeds) ''nova''
          (worldWith [novaSession\<lparr>thumbnailURL := None\<rparr>]))
     = db (worldWith [novaSession\<lparr>thumbnailURL := None\<rparr>])
   \<and> webhook (checkChannel (scenarioEnv (T0 + 36000000) liveStreams editSucceeds) ''nova''
          (worldWith [novaSession\<lparr>thumbnailURL := None\<rparr>])) = []"
proof -
  have h1: "ensureChannel (scenarioEnv (T0 + 36000000) liveStreams editSucceeds) ''nova''
       (worldWith [novaSession\<lparr>thumbnailURL := None\<rparr>])
     = (Inr (Some ''42''), worldWith [novaSession\<lparr>thumbnailURL := None\<rparr>])"
    by code_simp
  have h2: "fetchIsLive (scenarioEnv (T0 + 36000000) liveStreams editSucceeds) ''42''
       (worldWith [novaSession\<lparr>thumbnailURL := None\<rparr>])
     = (Inr (Some nova), tick (tick (worldWith [novaSession\<lparr>thumbnailURL := None\<rparr>])))"
    by code_simp
  have h3: "selectOpenSession ''42'' (db (tick (tick (worldWith [novaSession\<lparr>thumbnailURL := None\<rparr>]))))
     = Some (novaSession\<lparr>thumbnailURL := None\<rparr>)"
    by code_simp
  have h4: "thumbnailURL (novaSession\<lparr>thumbnailURL := None\<rparr>) = None"
    by simp
  have h5: "webhook (worldWith [novaSession\<lparr>thumbnailURL := None\<rparr>]) = []"
    by (simp add: worldWith_def)
  from live_without_thumbnail_is_noop[OF h1 h2 h3 h4] h1 h2 h3 h4 h5 show ?thesis
    by simp
qed

section \<open>The duration of a finished stream\<close>

lemma floor_hours:
  "\<lfloor>real_of_int ms / 3600000\<rfloor> = ms div 3600000"
  using floor_divide_of_int_eq[of ms 3600000, where ?'a = real] by simp

lemma floor_minutes:
  "\<lfloor>real_of_int ms / 60000\<rfloor> = ms div 60000"
  using floor_divide_of_int_eq[of ms 60000, where ?'a = real] by simp

lemma durationHours_eq:
  "\<lfloor>real_of_int ms / 1000 / 60 / 60\<rfloor> = ms div 3600000"
  using floor_hours[of ms] by simp

lemma durationMinutes_eq:
  assumes "0 \<le> ms"
  shows "\<lfloor>jsRemainder (real_of_int ms / 1000 / 60) 60\<rfloor> = (ms div 60000) mod 60"
proof -
  have "jsRemainder (real_of_int ms / 1000 / 60) 60
      = real_of_int ms / 60000 - real_of_int (60 * (ms div 3600000))"
    using assms by (simp add: jsRemainder_def floor_hours)
  then have "\<lfloor>jsRemainder (real_of_int ms / 1000 / 60) 60\<rfloor>
      = ms div 60000 - 60 * (ms div 3600000)"
    by (simp only: floor_diff_of_int floor_minutes)
  moreover have "ms div 3600000 = (ms div 60000) div 60"
    by (simp add: div_mult2_eq[symmetric])
  ultimately show ?thesis
    by (simp add: minus_mult_div_eq_mod)
qed

lemma formatVodDuration_nonneg:
  assumes "0 \<le> ms"
  shows "formatVodDuration ms = hoursAndMinutes ms"
proof -
  have "0 \<le> ms div 3600000" using assms by simp
  then have "(ms div 3600000 \<le> 0) = (ms div 3600000 = 0)" by linarith
  then show ?thesis
    unfolding formatVodDuration_def hoursAndMinutes_def Let_def
    by (simp only: durationHours_eq durationMinutes_eq[OF assms])
qed

lemma stopSession_MessageHistory:
  "MessageHistory (db (stopSession e name cid row w)) = MessageHistory (db w) @
     [\<lparr>IMessageHistoryRow.rowid = nextRowid (map IMessageHistoryRow.rowid (MessageHistory (db w))),
       channel = cid,
       vodDuration = Some (formatVodDuration (dateNow e (steps w) - startTime row)),
       startTime = startTime row, endTime = dateNow e (steps w),
       messageID = messageID row, messageLink = messageLink row,
       vodLink = Some (''https://www.twitch.tv/'' @ name @ ''/videos'')\<rparr>]"
  by (simp add: stopSession_eq Let_def split: sum.splits)

text \<open>
  C9. The duration recorded at Stop is the elapsed time as whole hours and remaining
  whole minutes, the hours left out when they are zero; 45 minutes give \<open>45m\<close>.
\<close>

theorem stop_duration_hours_and_minutes:
  "(0 \<le> durationMs \<longrightarrow> formatVodDuration durationMs = hoursAndMinutes durationMs)
   \<and> (startTime row \<le> dateNow e (steps w) \<longrightarrow>
        map vodDuration (MessageHistory (db (stopSession e name cid row w)))
          = map vodDuration (MessageHistory (db w))
            @ [Some (hoursAndMinutes (dateNow e (steps w) - startTime row))])
   \<and> formatVodDuration (45 * 60 * 1000) = ''45m''"
proof (intro conjI impI)
  assume "0 \<le> durationMs"
  then show "formatVodDuration durationMs = hoursAndMinutes durationMs"
    by (rule formatVodDuration_nonneg)
next
  assume "startTime row \<le> dateNow e (steps w)"
  then have "0 \<le> dateNow e (steps w) - startTime row" by simp
  from formatVodDuration_nonneg[OF this]
  show "map vodDuration (MessageHistory (db (stopSession e name cid row w)))
          = map vodDuration (MessageHistory (db w))
            @ [Some (hoursAndMinutes (dateNow e (steps w) - startTime row))]"
    by (simp add: stopSession_MessageHistory)
next
  have "formatVodDuration (45 * 60 * 1000) = hoursAndMinutes 2700000"
    using formatVodDuration_nonneg[of 2700000] by simp
  also have "\<dots> = ''45m''" by code_simp
  finally show "formatVodDuration (45 * 60 * 1000) = ''45m''" .
qed

theorem stop_duration_hours_and_minutes_witness:
  "(0::int) \<le> 4500000
   \<and> formatVodDuration 4500000 = ''1h 15m''
   \<and> startTime novaSession \<le> dateNow (scenarioEnv (T0 + 2700000) offlineStreams editSucceeds)
        (steps (worldWith [novaSession]))
   \<and> map vodDuration (MessageHistory (db (stopSession
        (scenarioEnv (T0 + 2700000) offlineStreams editSucceeds) ''nova'' ''42'' novaSession
        (worldWith [novaSession])))) = [Some ''45m'']"
proof -
  have h1: "(0::int) \<le> 4500000" by simp
  have h2: "startTime novaSession \<le> dateNow (scenarioEnv (T0 + 2700000) offlineStreams editSucceeds)
        (steps (worldWith [novaSession]))"
    by (simp add: novaSession_def scenarioEnv_def)
  have v1: "hoursAndMinutes 4500000 = ''1h 15m''" by code_simp
  have v2: "hoursAndMinutes (dateNow (scenarioEnv (T0 + 2700000) offlineStreams editSucceeds)
        (steps (worldWith [novaSession])) - startTime novaSession) = ''45m''" by code_simp
  have v3: "MessageHistory (db (worldWith [novaSession])) = []" by (simp add: worldWith_def)
  from stop_duration_hours_and_minutes[of 4500000 novaSession
      "scenarioEnv (T0 + 2700000) offlineStreams editSucceeds" "worldWith [novaSession]" "''nova''" "''42''"]
    h1 h2 v1 v2 v3
  show ?thesis by simp
qed

section \<open>Start: a brand-new live session\<close>

lemma logError_errorType:
  "map errorType (ErrorLog (db (logError e err ty w))) = map errorType (ErrorLog (db w)) @ [ty]"
  "map description (ErrorLog (db (logError e err ty w)))
     = map description (ErrorLog (db w)) @ [Some (message err)]"
  by (simp_all add: insertErrorLog_ErrorLog)

text \<open>
  C7, as the code has it. No open session and the oracle reports live. The clock is read
  three times, in this order: at the beginning (the start of the session and the
  timestamp of the embed), while the embed is built (the \<open>?t=\<close> of the image) and after
  the send has returned (the last refresh). When the builder accepts the embed, one
  notification is sent whose image is the thumbnail template with \<open>{width}\<close> replaced by
  1280 and \<open>{height}\<close> by 720, followed by \<open>?t=\<close> and the second reading; when the sink
  returns a message id, a session is appended with the first reading as start, no end,
  that message id, the resolved thumbnail base and the third reading as last refresh;
  when the send throws, no session is stored. When a setter refuses the embed, nothing is
  sent and nothing is stored. Both failures are logged as \<open>checkAllChannels\<close>.
\<close>

theorem start_sends_and_persists:
  fixes e :: env and sd :: IStreamData and w w1 w2 :: world and name cid :: string
  defines "base \<equiv> replace ''{height}'' ''720'' (replace ''{width}'' ''1280'' (thumbnail_url sd))"
  defines "start \<equiv> dateNow e (steps w2)"
  defines "imageURL \<equiv> base @ ''?t='' @ string_of_int (dateNow e (Suc (steps w2)))"
  defines "notice \<equiv> liveEmbed sd start imageURL"
  defines "after \<equiv> checkChannel e name w"
  assumes "ensureChannel e name w = (Inr (Some cid), w1)"
    and "fetchIsLive e cid w1 = (Inr (Some sd), w2)"
    and "selectOpenSession cid (db w2) = None"
  shows "(runSetters e (liveSetters sd @ [SetTimestamp start]) = None
          \<and> embedBuilder e (SetImage imageURL) = None \<longrightarrow>
            webhook after = webhook w @ [(Send (content e) notice, db w1)]
          \<and> embImage notice = Some imageURL
          \<and> embTimestamp notice = start
          \<and> (\<forall>mid. send e (Suc (Suc (steps w2))) (content e) notice = Inr mid \<longrightarrow>
                ChannelData (db after) = ChannelData (db w) @
                  [\<lparr>rowid = nextRowid (map rowid (ChannelData (db w))), channel = cid,
                    startTime = start, endTime = None, messageID = Some mid,
                    messageLink = Some (''https://discord.com/channels/.../'' @ mid),
                    thumbnailURL = Some base,
                    lastThumbUpdate = Some (dateNow e (Suc (Suc (Suc (steps w2)))))\<rparr>]
              \<and> ErrorLog (db after) = ErrorLog (db w))
          \<and> (\<forall>err. send e (Suc (Suc (steps w2))) (content e) notice = Inl err \<longrightarrow>
                ChannelData (db after) = ChannelData (db w)
              \<and> map errorType (ErrorLog (db after))
                  = map errorType (ErrorLog (db w)) @ [''checkAllChannels'']
              \<and> map description (ErrorLog (db after))
                  = map description (ErrorLog (db w)) @ [Some (message err)]))
       \<and> (\<forall>err. (runSetters e (liveSetters sd @ [SetTimestamp start]) = Some err
                  \<or> runSetters e (liveSetters sd @ [SetTimestamp start]) = None
                    \<and> embedBuilder e (SetImage imageURL) = Some err) \<longrightarrow>
              webhook after = webhook w
            \<and> ChannelData (db after) = ChannelData (db w)
            \<and> map errorType (ErrorLog (db after))
                = map errorType (ErrorLog (db w)) @ [''checkAllChannels'']
            \<and> map description (ErrorLog (db after))
                = map description (ErrorLog (db w)) @ [Some (message err)])"
proof -
  have frame: "db w2 = db w1" "webhook w2 = webhook w" "ChannelData (db w1) = ChannelData (db w)"
    "ErrorLog (db w1) = ErrorLog (db w)"
    using fetchIsLive_frame[OF assms(7)] ensureChannel_frame[OF assms(6)] by simp_all
  have run: "after = (case startSession e name cid sd base w2 of
                 (Some err, w3) \<Rightarrow> logError e err ''checkAllChannels'' w3
               | (None, w3) \<Rightarrow> w3)"
    unfolding after_def base_def using checkChannel_cases[OF assms(6,7)] assms(8) by simp
  show ?thesis
  proof (intro conjI impI allI)
    assume acc: "runSetters e (liveSetters sd @ [SetTimestamp start]) = None
          \<and> embedBuilder e (SetImage imageURL) = None"
    note s = startSession_eq[OF acc[THEN conjunct1, unfolded start_def]
        acc[THEN conjunct2, unfolded imageURL_def], of name cid, folded start_def imageURL_def notice_def]
    show "webhook after = webhook w @ [(Send (content e) notice, db w1)]"
      unfolding run s Let_def using frame by (simp add: notice_def split: sum.splits)
    show "embImage notice = Some imageURL" "embTimestamp notice = start"
      by (simp_all add: notice_def liveEmbed_def)
    fix mid
    assume ok: "send e (Suc (Suc (steps w2))) (content e) notice = Inr mid"
    show "ChannelData (db after) = ChannelData (db w) @
                  [\<lparr>rowid = nextRowid (map rowid (ChannelData (db w))), channel = cid,
                    startTime = start, endTime = None, messageID = Some mid,
                    messageLink = Some (''https://discord.com/channels/.../'' @ mid),
                    thumbnailURL = Some base,
                    lastThumbUpdate = Some (dateNow e (Suc (Suc (Suc (steps w2)))))\<rparr>]"
      "ErrorLog (db after) = ErrorLog (db w)"
      unfolding run s Let_def using frame ok by (simp_all add: notice_def)
  next
    fix err
    assume acc: "runSetters e (liveSetters sd @ [SetTimestamp start]) = None
          \<and> embedBuilder e (SetImage imageURL) = None"
      and bad: "send e (Suc (Suc (steps w2))) (content e) notice = Inl err"
    note s = startSession_eq[OF acc[THEN conjunct1, unfolded start_def]
        acc[THEN conjunct2, unfolded imageURL_def], of name cid, folded start_def imageURL_def notice_def]
    show "ChannelData (db after) = ChannelData (db w)"
      "map errorType (ErrorLog (db after)) = map errorType (ErrorLog (db w)) @ [''checkAllChannels'']"
      "map description (ErrorLog (db after)) = map description (ErrorLog (db w)) @ [Some (message err)]"
      unfolding run s Let_def using frame bad by (simp_all add: notice_def insertErrorLog_ErrorLog)
  next
    fix err
    assume rej: "runSetters e (liveSetters sd @ [SetTimestamp start]) = Some err
                  \<or> runSetters e (liveSetters sd @ [SetTimestamp start]) = None
                    \<and> embedBuilder e (SetImage imageURL) = Some err"
    from startSession_rejected[OF rej[unfolded start_def imageURL_def], of name cid]
    obtain w' where w': "startSession e name cid sd base w2 = (Some err, w')"
      "db w' = db w2" "webhook w' = webhook w2"
      by blast
    have r: "after = logError e err ''checkAllChannels'' w'"
      unfolding run w'(1) by simp
    show "webhook after = webhook w" "ChannelData (db after) = ChannelData (db w)"
      "map errorType (ErrorLog (db after)) = map errorType (ErrorLog (db w)) @ [''checkAllChannels'']"
      "map description (ErrorLog (db after)) = map description (ErrorLog (db w)) @ [Some (message err)]"
      unfolding r using w'(2,3) frame by (simp_all add: insertErrorLog_ErrorLog)
  qed
qed

theorem start_sends_and_persists_witness:
  "ensureChannel (scenarioEnv T0 liveStreams editSucceeds) ''nova'' startBot
     = (Inr (Some ''42''), snd (ensureChannel (scenarioEnv T0 liveStreams editSucceeds) ''nova'' startBot))
   \<and> Channels (db (snd (ensureChannel (scenarioEnv T0 liveStreams editSucceeds) ''nova'' startBot)))
     = [\<lparr>channelName = ''nova'', channelID = ''42''\<rparr>]
   \<and> embedBuilder (scenarioEnv T0 liveStreams editSucceeds) = acceptsAll
   \<and> map (embImage \<circ> embedOf \<circ> fst)
        (webhook (checkChannel (scenarioEnv T0 liveStreams editSucceeds) ''nova'' startBot))
     = [Some ''https://x/1280x720.jpg?t=1700000000000'']
   \<and> ChannelData (db (checkChannel (scenarioEnv T0 liveStreams editSucceeds) ''nova'' startBot))
     = [novaSession]
   \<and> send ((scenarioEnv T0 liveStreams editSucceeds)\<lparr>send := sendFails\<rparr>) 12 []
        (liveEmbed nova T0 ''https://x/1280x720.jpg?t=1700000000000'') = Inl networkError
   \<and> length (webhook (checkChannel ((scenarioEnv T0 liveStreams editSucceeds)\<lparr>send := sendFails\<rparr>)
        ''nova'' (worldWith []))) = 1
   \<and> ChannelData (db (checkChannel ((scenarioEnv T0 liveStreams editSucceeds)\<lparr>send := sendFails\<rparr>)
        ''nova'' (worldWith []))) = []
   \<and> map errorType (ErrorLog (db (checkChannel
        ((scenarioEnv T0 liveStreams editSucceeds)\<lparr>send := sendFails\<rparr>) ''nova'' (worldWith []))))
     = [''checkAllChannels'']
   \<and> embedBuilder ((scenarioEnv T0 liveWithoutThumbnail editSucceeds)\<lparr>embedBuilder := imageMustBeURL\<rparr>)
        (SetImage ''?t=1700000000000'') = Some invalidImage
   \<and> webhook (checkChannel
        ((scenarioEnv T0 liveWithoutThumbnail editSucceeds)\<lparr>embedBuilder := imageMustBeURL\<rparr>)
        ''nova'' (worldWith [])) = []
   \<and> ChannelData (db (checkChannel
        ((scenarioEnv T0 liveWithoutThumbnail editSucceeds)\<lparr>embedBuilder := imageMustBeURL\<rparr>)
        ''nova'' (worldWith []))) = []
   \<and> map errorType (ErrorLog (db (checkChannel
        ((scenarioEnv T0 liveWithoutThumbnail editSucceeds)\<lparr>embedBuilder := imageMustBeURL\<rparr>)
        ''nova'' (worldWith [])))) = [''checkAllChannels'']"
proof -
  let ?E = "scenarioEnv T0 liveStreams editSucceeds"
  let ?w1 = "snd (ensureChannel ?E ''nova'' startBot)"
  let ?w2 = "tick (tick ?w1)"
  let ?F = "?E\<lparr>send := sendFails\<rparr>"
  let ?R = "(scenarioEnv T0 liveWithoutThumbnail editSucceeds)\<lparr>embedBuilder := imageMustBeURL\<rparr>"
  let ?v = "worldWith []"
  let ?v2 = "tick (tick ?v)"
  have h1: "ensureChannel ?E ''nova'' startBot = (Inr (Some ''42''), ?w1)" by code_simp
  have h2: "fetchIsLive ?E ''42'' ?w1 = (Inr (Some nova), ?w2)" by code_simp
  have h3: "selectOpenSession ''42'' (db ?w2) = None" by code_simp
  have acc: "embedBuilder ?E = acceptsAll" "embedBuilder ?F = acceptsAll"
    by (simp_all add: scenarioEnv_def)
  have g1: "ensureChannel ?F ''nova'' ?v = (Inr (Some ''42''), ?v)" by code_simp
  have g2: "fetchIsLive ?F ''42'' ?v = (Inr (Some nova), ?v2)" by code_simp
  have g3: "selectOpenSession ''42'' (db ?v2) = None" by code_simp
  have r1: "ensureChannel ?R ''nova'' ?v = (Inr (Some ''42''), ?v)" by code_simp
  have r2: "fetchIsLive ?R ''42'' ?v = (Inr (Some (nova\<lparr>thumbnail_url := []\<rparr>)), ?v2)" by code_simp
  have v1: "Channels (db ?w1) = [\<lparr>channelName = ''nova'', channelID = ''42''\<rparr>]" by code_simp
  have v2: "replace ''{height}'' ''720'' (replace ''{width}'' ''1280'' (thumbnail_url nova))
      = ''https://x/1280x720.jpg''" by code_simp
  have v2': "replace ''{height}'' ''720'' (replace ''{width}'' ''1280''
      (thumbnail_url (nova\<lparr>thumbnail_url := []\<rparr>))) = []" by simp
  have v3: "string_of_int T0 = ''1700000000000''" by code_simp
  have clock: "dateNow ?E k = T0" "dateNow ?F k = T0" "dateNow ?R k = T0" for k
    by (simp_all add: scenarioEnv_def)
  have v6: "ChannelData (db startBot) = []" "webhook startBot = []"
    "ChannelData (db ?v) = []" "webhook ?v = []" "ErrorLog (db ?v) = []"
    by (simp_all add: startBot_def emptyDatabase_def worldWith_def)
  have sent: "send ?E k c emb = Inr ''m1''" for k c emb by (simp add: scenarioEnv_def)
  have thrown: "send ?F k c emb = Inl networkError" for k c emb by (simp add: sendFails_def)
  have rs: "runSetters ?R (liveSetters (nova\<lparr>thumbnail_url := []\<rparr>)
         @ [SetTimestamp (dateNow ?R (steps ?v2))]) = None"
    by (simp add: liveSetters_def imageMustBeURL_def)
  have rej: "runSetters ?R (liveSetters (nova\<lparr>thumbnail_url := []\<rparr>)
         @ [SetTimestamp (dateNow ?R (steps ?v2))]) = Some invalidImage
      \<or> runSetters ?R (liveSetters (nova\<lparr>thumbnail_url := []\<rparr>)
         @ [SetTimestamp (dateNow ?R (steps ?v2))]) = None
       \<and> embedBuilder ?R (SetImage (replace ''{height}'' ''720'' (replace ''{width}'' ''1280''
             (thumbnail_url (nova\<lparr>thumbnail_url := []\<rparr>)))
           @ ''?t='' @ string_of_int (dateNow ?R (Suc (steps ?v2))))) = Some invalidImage"
    by (rule disjI2, rule conjI, rule rs) (simp add: v3 clock imageMustBeURL_def)
  note a = start_sends_and_persists[OF h1 h2 h3, THEN conjunct1, THEN mp,
      OF conjI[OF runSetters_acceptsAll[OF acc(1)] fun_cong[OF acc(1), unfolded acceptsAll_def]]]
  note stored = a[THEN conjunct2, THEN conjunct2, THEN conjunct2, THEN conjunct1, THEN spec, THEN mp,
      OF sent, THEN conjunct1]
  note b = start_sends_and_persists[OF g1 g2 g3, THEN conjunct1, THEN mp,
      OF conjI[OF runSetters_acceptsAll[OF acc(2)] fun_cong[OF acc(2), unfolded acceptsAll_def]]]
  note failed = b[THEN conjunct2, THEN conjunct2, THEN conjunct2, THEN conjunct2, THEN spec, THEN mp,
      OF thrown]
  have r3: "selectOpenSession ''42'' (db ?v2) = None" by (rule g3)
  note refused = start_sends_and_persists[OF r1 r2 r3, THEN conjunct2, THEN spec, THEN mp, OF rej]
  have i: "embedBuilder ?R (SetImage ''?t=1700000000000'') = Some invalidImage"
    by (simp add: imageMustBeURL_def)
  from a[THEN conjunct1] stored b[THEN conjunct1] failed refused h1 v1 acc(1) i
  show ?thesis
    by (simp add: v2 v3 v6 clock sendFails_def nextRowid_def novaSession_def liveEmbed_def)
qed

theorem start_clock_readings_counterexample:
  "selectOpenSession ''42'' (db (snd (ensureChannel tickingEnv ''nova'' startBot))) = None
   \<and> fetchIsLive tickingEnv ''42'' (snd (ensureChannel tickingEnv ''nova'' startBot))
     = (Inr (Some nova), tick (tick (snd (ensureChannel tickingEnv ''nova'' startBot))))
   \<and> map (embImage \<circ> embedOf \<circ> fst) (webhook (checkChannel tickingEnv ''nova'' startBot))
     = [Some ''https://x/1280x720.jpg?t=1700000300000'']
   \<and> map startTime (ChannelData (db (checkChannel tickingEnv ''nova'' startBot))) = [1700000240000]
   \<and> map lastThumbUpdate (ChannelData (db (checkChannel tickingEnv ''nova'' startBot)))
     = [Some 1700000420000]
   \<and> selectOpenSession ''42'' (db (worldWith [])) = None
   \<and> fetchIsLive ((scenarioEnv T0 liveWithoutThumbnail editSucceeds)\<lparr>embedBuilder := imageMustBeURL\<rparr>)
        ''42'' (worldWith [])
     = (Inr (Some (nova\<lparr>thumbnail_url := []\<rparr>)), tick (tick (worldWith [])))
   \<and> webhook (checkChannel
        ((scenarioEnv T0 liveWithoutThumbnail editSucceeds)\<lparr>embedBuilder := imageMustBeURL\<rparr>)
        ''nova'' (worldWith [])) = []
   \<and> ChannelData (db (checkChannel
        ((scenarioEnv T0 liveWithoutThumbnail editSucceeds)\<lparr>embedBuilder := imageMustBeURL\<rparr>)
        ''nova'' (worldWith []))) = []"
  by code_simp

section \<open>Stop: the stream has ended\<close>

lemma selectOpenSession_Some:
  assumes "selectOpenSession cid d = Some row"
  shows "row \<in> set (ChannelData d) \<and> channel row = cid \<and> endTime row = None"
  using assms unfolding selectOpenSession_def find_Some_iff by auto

lemma selectOpenSession_cong:
  assumes "ChannelData d = ChannelData d'"
  shows "selectOpenSession cid d = selectOpenSession cid d'"
  using assms by (simp add: selectOpenSession_def)

lemma stopSession_ChannelData:
  "ChannelData (db (stopSession e name cid row w))
     = map (\<lambda>r. if rowid r = rowid row then r\<lparr>endTime := Some (dateNow e (steps w))\<rparr> else r)
         (ChannelData (db w))"
  by (simp add: stopSession_eq Let_def split: sum.splits)

lemma stopSession_closes:
  assumes "row \<in> set (ChannelData (db w))"
  shows "row\<lparr>endTime := Some (dateNow e (steps w))\<rparr>
           \<in> set (ChannelData (db (stopSession e name cid row w)))"
  unfolding stopSession_ChannelData using assms
  by (auto simp: image_iff intro!: bexI[of _ row])



section \<open>Continue: the time-gated thumbnail refresh\<close>

lemma find_map_preserving:
  assumes "\<And>x. P (f x) = P x"
  shows "find P (map f xs) = map_option f (find P xs)"
  using assms by (induction xs) simp_all

lemma selectOpenSession_refreshed:
  assumes "selectOpenSession cid d = Some row"
  shows "selectOpenSession cid (updateLastThumbUpdate t (rowid row) d)
           = Some (row\<lparr>lastThumbUpdate := Some t\<rparr>)"
proof -
  let ?f = "\<lambda>r. if rowid r = rowid row then r\<lparr>lastThumbUpdate := Some t\<rparr> else r"
  have "find (\<lambda>r. channel r = cid \<and> endTime r = None) (map ?f (ChannelData d))
      = map_option ?f (find (\<lambda>r. channel r = cid \<and> endTime r = None) (ChannelData d))"
    by (rule find_map_preserving) simp
  with assms show ?thesis by (simp add: selectOpenSession_def)
qed

text \<open>
  C3, as the code has it. A channel with an open session that stores a non-empty
  thumbnail base (an empty one is skipped like a missing one), reported live. If the
  time since the last refresh has reached the 10-minute interval and the builder accepts
  the embed, exactly one edit of the message is attempted, with the stored base and
  \<open>?t=now\<close> as image, on the database as it was, and when that edit succeeds the last
  refresh of the session is set to now. If a setter refuses the embed, no edit is
  attempted, the sessions stay as they are and the failure is logged as
  \<open>checkAllChannels\<close>. If the time is below the interval, even by one millisecond, the
  database and the webhook calls are unchanged.
\<close>

theorem continue_refresh_gated:
  fixes e :: env and sd :: IStreamData and row :: IChannelDataRow and w w1 w2 :: world
    and thumb name cid :: string
  defines "now \<equiv> dateNow e (steps w2)"
  defines "elapsed \<equiv> now - (case lastThumbUpdate row of None \<Rightarrow> 0 | Some t \<Rightarrow> t)"
  defines "mid \<equiv> (case messageID row of None \<Rightarrow> [] | Some m \<Rightarrow> m)"
  defines "imageURL \<equiv> thumb @ ''?t='' @ string_of_int now"
  defines "updatedEmbed \<equiv> liveEmbed sd (dateNow e (Suc (steps w2))) imageURL"
  defines "lastSetters \<equiv> [SetTimestamp (dateNow e (Suc (steps w2))), SetImage imageURL]"
  defines "after \<equiv> checkChannel e name w"
  assumes "ensureChannel e name w = (Inr (Some cid), w1)"
    and "fetchIsLive e cid w1 = (Inr (Some sd), w2)"
    and "selectOpenSession cid (db w2) = Some row"
    and "thumbnailURL row = Some thumb" and "thumb \<noteq> []"
  shows "(THUMBNAIL_REFRESH_INTERVAL \<le> elapsed
          \<and> runSetters e (liveSetters sd) = None \<and> runSetters e lastSetters = None \<longrightarrow>
            webhook after = webhook w @ [(EditMessage mid (content e) updatedEmbed, db w1)]
          \<and> embImage updatedEmbed = Some imageURL
          \<and> (\<forall>u. editMessage e (Suc (Suc (steps w2))) mid (content e) updatedEmbed = Inr u \<longrightarrow>
                db after = updateLastThumbUpdate now (rowid row) (db w1)
              \<and> selectOpenSession cid (db after) = Some (row\<lparr>lastThumbUpdate := Some now\<rparr>)))
       \<and> (\<forall>err. THUMBNAIL_REFRESH_INTERVAL \<le> elapsed
                \<and> (runSetters e (liveSetters sd) = Some err
                    \<or> runSetters e (liveSetters sd) = None \<and> runSetters e lastSetters = Some err) \<longrightarrow>
              webhook after = webhook w
            \<and> ChannelData (db after) = ChannelData (db w)
            \<and> MessageHistory (db after) = MessageHistory (db w)
            \<and> map errorType (ErrorLog (db after))
                = map errorType (ErrorLog (db w)) @ [''checkAllChannels'']
            \<and> map description (ErrorLog (db after))
                = map description (ErrorLog (db w)) @ [Some (message err)])
       \<and> (elapsed < THUMBNAIL_REFRESH_INTERVAL \<longrightarrow>
            db after = db w1 \<and> webhook after = webhook w)"
proof -
  have frame: "db w2 = db w1" "webhook w2 = webhook w" "ChannelData (db w1) = ChannelData (db w)"
    "MessageHistory (db w1) = MessageHistory (db w)" "ErrorLog (db w1) = ErrorLog (db w)"
    using fetchIsLive_frame[OF assms(9)] ensureChannel_frame[OF assms(8)] by simp_all
  have run: "after = (case stillLive e sd row w2 of
                 (Some err, w3) \<Rightarrow> logError e err ''checkAllChannels'' w3
               | (None, w3) \<Rightarrow> w3)"
    unfolding after_def using checkChannel_cases[OF assms(8,9)] assms(10) by simp
  have sel: "selectOpenSession cid (db w1) = Some row"
    using assms(10) frame by simp
  show ?thesis
  proof (intro conjI impI allI)
    assume "elapsed < THUMBNAIL_REFRESH_INTERVAL"
    then have "stillLive e sd row w2 = (None, tick w2)"
      unfolding elapsed_def now_def by (rule stillLive_before_interval[OF assms(11,12)])
    then show "db after = db w1" "webhook after = webhook w"
      using run frame by simp_all
  next
    assume a: "THUMBNAIL_REFRESH_INTERVAL \<le> elapsed
          \<and> runSetters e (liveSetters sd) = None \<and> runSetters e lastSetters = None"
    note r = stillLive_refresh[OF assms(11,12) a[THEN conjunct1, unfolded elapsed_def now_def]
        a[THEN conjunct2, THEN conjunct1]
        a[THEN conjunct2, THEN conjunct2, unfolded lastSetters_def imageURL_def now_def]]
    show "webhook after = webhook w @ [(EditMessage mid (content e) updatedEmbed, db w1)]"
      unfolding run r Let_def using frame
      by (simp add: mid_def updatedEmbed_def imageURL_def now_def split: sum.splits)
    show "embImage updatedEmbed = Some imageURL"
      by (simp add: updatedEmbed_def liveEmbed_def)
    fix u
    assume ok: "editMessage e (Suc (Suc (steps w2))) mid (content e) updatedEmbed = Inr u"
    show d: "db after = updateLastThumbUpdate now (rowid row) (db w1)"
      unfolding run r Let_def
      using frame ok[unfolded mid_def updatedEmbed_def imageURL_def now_def]
      by (simp add: now_def)
    show "selectOpenSession cid (db after) = Some (row\<lparr>lastThumbUpdate := Some now\<rparr>)"
      unfolding d by (rule selectOpenSession_refreshed[OF sel])
  next
    fix err
    assume a: "THUMBNAIL_REFRESH_INTERVAL \<le> elapsed
                \<and> (runSetters e (liveSetters sd) = Some err
                    \<or> runSetters e (liveSetters sd) = None \<and> runSetters e lastSetters = Some err)"
    from stillLive_rejected[OF assms(11,12) a[THEN conjunct1, unfolded elapsed_def now_def]
        a[THEN conjunct2, unfolded lastSetters_def imageURL_def now_def]]
    obtain w' where w': "stillLive e sd row w2 = (Some err, w')" "db w' = db w2"
      "webhook w' = webhook w2"
      by blast
    have r: "after = logError e err ''checkAllChannels'' w'"
      unfolding run w'(1) by simp
    show "webhook after = webhook w" "ChannelData (db after) = ChannelData (db w)"
      "MessageHistory (db after) = MessageHistory (db w)"
      "map errorType (ErrorLog (db after)) = map errorType (ErrorLog (db w)) @ [''checkAllChannels'']"
      "map description (ErrorLog (db after)) = map description (ErrorLog (db w)) @ [Some (message err)]"
      unfolding r using w'(2,3) frame by (simp_all add: insertErrorLog_ErrorLog)
  qed
qed

theorem continue_refresh_gated_witness:
  "ensureChannel (scenarioEnv (T0 + 600000) liveStreams editSucceeds) ''nova'' (worldWith [novaSession])
     = (Inr (Some ''42''), worldWith [novaSession])
   \<and> fetchIsLive (scenarioEnv (T0 + 600000) liveStreams editSucceeds) ''42'' (worldWith [novaSession])
     = (Inr (Some nova), tick (tick (worldWith [novaSession])))
   \<and> selectOpenSession ''42'' (db (tick (tick (worldWith [novaSession])))) = Some novaSession
   \<and> thumbnailURL novaSession = Some ''https://x/1280x720.jpg''
   \<and> ''https://x/1280x720.jpg'' \<noteq> []
   \<and> THUMBNAIL_REFRESH_INTERVAL \<le> (T0 + 600000) - T0
   \<and> length (webhook (checkChannel (scenarioEnv (T0 + 600000) liveStreams editSucceeds) ''nova''
         (worldWith [novaSession]))) = 1
   \<and> selectOpenSession ''42'' (db (checkChannel (scenarioEnv (T0 + 600000) liveStreams editSucceeds)
         ''nova'' (worldWith [novaSession])))
     = Some (novaSession\<lparr>lastThumbUpdate := Some (T0 + 600000)\<rparr>)
   \<and> fetchIsLive (scenarioEnv (T0 + 599999) liveStreams editSucceeds) ''42'' (worldWith [novaSession])
     = (Inr (Some nova), tick (tick (worldWith [novaSession])))
   \<and> (T0 + 599999) - T0 < THUMBNAIL_REFRESH_INTERVAL
   \<and> db (checkChannel (scenarioEnv (T0 + 599999) liveStreams editSucceeds) ''nova''
         (worldWith [novaSession])) = db (worldWith [novaSession])
   \<and> webhook (checkChannel (scenarioEnv (T0 + 599999) liveStreams editSucceeds) ''nova''
         (worldWith [novaSession])) = []
   \<and> thumbnailURL (novaSession\<lparr>thumbnailURL := Some ''x''\<rparr>) = Some ''x''
   \<and> runSetters ((scenarioEnv (T0 + 600000) liveStreams editSucceeds)\<lparr>embedBuilder := imageMustBeURL\<rparr>)
         [SetTimestamp (T0 + 600000), SetImage ''x?t=1700000600000''] = Some invalidImage
   \<and> webhook (checkChannel
         ((scenarioEnv (T0 + 600000) liveStreams editSucceeds)\<lparr>embedBuilder := imageMustBeURL\<rparr>)
         ''nova'' (worldWith [novaSession\<lparr>thumbnailURL := Some ''x''\<rparr>])) = []
   \<and> ChannelData (db (checkChannel
         ((scenarioEnv (T0 + 600000) liveStreams editSucceeds)\<lparr>embedBuilder := imageMustBeURL\<rparr>)
         ''nova'' (worldWith [novaSession\<lparr>thumbnailURL := Some ''x''\<rparr>])))
     = [novaSession\<lparr>thumbnailURL := Some ''x''\<rparr>]
   \<and> map errorType (ErrorLog (db (checkChannel
         ((scenarioEnv (T0 + 600000) liveStreams editSucceeds)\<lparr>embedBuilder := imageMustBeURL\<rparr>)
         ''nova'' (worldWith [novaSession\<lparr>thumbnailURL := Some ''x''\<rparr>])))) = [''checkAllChannels'']"
proof -
  let ?E = "scenarioEnv (T0 + 600000) liveStreams editSucceeds"
  let ?E' = "scenarioEnv (T0 + 599999) liveStreams editSucceeds"
  let ?R = "?E\<lparr>embedBuilder := imageMustBeURL\<rparr>"
  let ?w = "worldWith [novaSession]"
  let ?x = "worldWith [novaSession\<lparr>thumbnailURL := Some ''x''\<rparr>]"
  have h1: "ensureChannel ?E ''nova'' ?w = (Inr (Some ''42''), ?w)" by code_simp
  have h2: "fetchIsLive ?E ''42'' ?w = (Inr (Some nova), tick (tick ?w))" by code_simp
  have h3: "selectOpenSession ''42'' (db (tick (tick ?w))) = Some novaSession" by code_simp
  have h4: "thumbnailURL novaSession = Some ''https://x/1280x720.jpg''" by (simp add: novaSession_def)
  have h5: "''https://x/1280x720.jpg'' \<noteq> []" by simp
  have h1': "ensureChannel ?E' ''nova'' ?w = (Inr (Some ''42''), ?w)" by code_simp
  have h2': "fetchIsLive ?E' ''42'' ?w = (Inr (Some nova), tick (tick ?w))" by code_simp
  have clock: "dateNow ?E k = T0 + 600000" "dateNow ?E' k = T0 + 599999" for k
    by (simp_all add: scenarioEnv_def)
  have edit: "editMessage ?E k m c emb = Inr ()" for k m c emb
    by (simp add: scenarioEnv_def editSucceeds_def)
  have last: "lastThumbUpdate novaSession = Some T0" by (simp add: novaSession_def)
  have empty: "webhook ?w = []" by (simp add: worldWith_def)
  have iv: "THUMBNAIL_REFRESH_INTERVAL = 600000" by (simp add: THUMBNAIL_REFRESH_INTERVAL_def)
  have ge: "THUMBNAIL_REFRESH_INTERVAL \<le> dateNow ?E (steps (tick (tick ?w)))
      - (case lastThumbUpdate novaSession of None \<Rightarrow> 0 | Some t \<Rightarrow> t)"
    by (simp add: clock last iv)
  have lt: "dateNow ?E' (steps (tick (tick ?w)))
      - (case lastThumbUpdate novaSession of None \<Rightarrow> 0 | Some t \<Rightarrow> t) < THUMBNAIL_REFRESH_INTERVAL"
    by (simp add: clock last iv)
  have acc: "embedBuilder ?E = acceptsAll" by (simp add: scenarioEnv_def)
  note due = continue_refresh_gated[OF h1 h2 h3 h4 h5, THEN conjunct1, THEN mp,
      OF conjI[OF ge conjI[OF runSetters_acceptsAll[OF acc] runSetters_acceptsAll[OF acc]]]]
  note refreshed = due[THEN conjunct2, THEN conjunct2, THEN spec, THEN mp, OF edit, THEN conjunct2]
  note early = continue_refresh_gated[OF h1' h2' h3 h4 h5, THEN conjunct2, THEN conjunct2,
      THEN mp, OF lt]
  have x1: "ensureChannel ?R ''nova'' ?x = (Inr (Some ''42''), ?x)" by code_simp
  have x2: "fetchIsLive ?R ''42'' ?x = (Inr (Some nova), tick (tick ?x))" by code_simp
  have x3: "selectOpenSession ''42'' (db (tick (tick ?x)))
      = Some (novaSession\<lparr>thumbnailURL := Some ''x''\<rparr>)" by code_simp
  have x4: "thumbnailURL (novaSession\<lparr>thumbnailURL := Some ''x''\<rparr>) = Some ''x''" by simp
  have x5: "''x'' \<noteq> []" by simp
  have clockR: "dateNow ?R k = T0 + 600000" for k by (simp add: scenarioEnv_def)
  have v3: "string_of_int (T0 + 600000) = ''1700000600000''" by code_simp
  have geR: "THUMBNAIL_REFRESH_INTERVAL \<le> dateNow ?R (steps (tick (tick ?x)))
      - (case lastThumbUpdate (novaSession\<lparr>thumbnailURL := Some ''x''\<rparr>) of
           None \<Rightarrow> 0 | Some t \<Rightarrow> t)"
    by (simp add: clock clockR last iv)
  have rs1: "runSetters ?R (liveSetters nova) = None"
    by (simp add: liveSetters_def imageMustBeURL_def)
  have rs2: "runSetters ?R [SetTimestamp (dateNow ?R (Suc (steps (tick (tick ?x))))),
      SetImage (''x'' @ ''?t='' @ string_of_int (dateNow ?R (steps (tick (tick ?x)))))]
        = Some invalidImage"
    by (simp add: clock clockR v3 imageMustBeURL_def)
  note refused = continue_refresh_gated[OF x1 x2 x3 x4 x5, THEN conjunct2, THEN conjunct1,
      THEN spec, THEN mp, OF conjI[OF geR disjI2[OF conjI[OF rs1 rs2]]]]
  have xs: "webhook ?x = []" "ChannelData (db ?x) = [novaSession\<lparr>thumbnailURL := Some ''x''\<rparr>]"
    "ErrorLog (db ?x) = []"
    by (simp_all add: worldWith_def)
  have rs2': "runSetters ?R [SetTimestamp (T0 + 600000), SetImage ''x?t=1700000600000'']
      = Some invalidImage"
    by (simp add: imageMustBeURL_def)
  from due[THEN conjunct1] refreshed early refused[THEN conjunct1]
    refused[THEN conjunct2, THEN conjunct1]
    refused[THEN conjunct2, THEN conjunct2, THEN conjunct2, THEN conjunct1] h1 h2 h3 h4 h2' rs2'
  show ?thesis
    by (simp add: clock empty iv xs)
qed

theorem continue_refresh_counterexample:
  "selectOpenSession ''42'' (db (worldWith [novaSession])) = Some novaSession
   \<and> thumbnailURL novaSession = Some ''https://x/1280x720.jpg''
   \<and> fetchIsLive (scenarioEnv (T0 + 600000) liveStreams editFails) ''42'' (worldWith [novaSession])
     = (Inr (Some nova), tick (tick (worldWith [novaSession])))
   \<and> THUMBNAIL_REFRESH_INTERVAL
       \<le> dateNow (scenarioEnv (T0 + 600000) liveStreams editFails) (steps (tick (tick (worldWith [novaSession]))))
         - T0
   \<and> length (webhook (checkChannel (scenarioEnv (T0 + 600000) liveStreams editFails) ''nova''
         (worldWith [novaSession]))) = 1
   \<and> map lastThumbUpdate (ChannelData (db (checkChannel (scenarioEnv (T0 + 600000) liveStreams editFails)
         ''nova'' (worldWith [novaSession])))) = [Some T0]
   \<and> map lastThumbUpdate (ChannelData (db (checkChannel (scenarioEnv (T0 + 600000) liveStreams editFails)
         ''nova'' (worldWith [novaSession]))))
     \<noteq> [Some (dateNow (scenarioEnv (T0 + 600000) liveStreams editFails)
                 (steps (tick (tick (worldWith [novaSession])))))]
   \<and> selectOpenSession ''42'' (db (worldWith [novaSession\<lparr>thumbnailURL := Some []\<rparr>]))
     = Some (novaSession\<lparr>thumbnailURL := Some []\<rparr>)
   \<and> webhook (checkChannel (scenarioEnv (T0 + 600000) liveStreams editSucceeds) ''nova''
         (worldWith [novaSession\<lparr>thumbnailURL := Some []\<rparr>])) = []
   \<and> db (checkChannel (scenarioEnv (T0 + 600000) liveStreams editSucceeds) ''nova''
         (worldWith [novaSession\<lparr>thumbnailURL := Some []\<rparr>]))
     = db (worldWith [novaSession\<lparr>thumbnailURL := Some []\<rparr>])
   \<and> selectOpenSession ''42'' (db (worldWith [novaSession\<lparr>thumbnailURL := Some ''x''\<rparr>]))
     = Some (novaSession\<lparr>thumbnailURL := Some ''x''\<rparr>)
   \<and> webhook (checkChannel
         ((scenarioEnv (T0 + 600000) liveStreams editSucceeds)\<lparr>embedBuilder := imageMustBeURL\<rparr>)
         ''nova'' (worldWith [novaSession\<lparr>thumbnailURL := Some ''x''\<rparr>])) = []
   \<and> map lastThumbUpdate (ChannelData (db (checkChannel
         ((scenarioEnv (T0 + 600000) liveStreams editSucceeds)\<lparr>embedBuilder := imageMustBeURL\<rparr>)
         ''nova'' (worldWith [novaSession\<lparr>thumbnailURL := Some ''x''\<rparr>])))) = [Some T0]"
  by code_simp

text \<open>
  C2, as the code has it. When the edit of a due refresh is attempted (the builder has
  accepted the embed) and fails, the failure is caught and logged as \<open>ThumbnailRefresh\<close>;
  the update of the last refresh comes after the edit in the same \<^verbatim>\<open>try\<close> and is
  skipped: the edit was attempted on the unchanged database, the sessions are unchanged
  afterwards (the last refresh keeps its earlier value), and the only write is the error
  record.
\<close>

theorem continue_failed_edit_logged:
  fixes e :: env and sd :: IStreamData and row :: IChannelDataRow and w w1 w2 :: world
    and thumb :: string
  defines "now \<equiv> dateNow e (steps w2)"
  defines "mid \<equiv> (case messageID row of None \<Rightarrow> [] | Some m \<Rightarrow> m)"
  defines "updatedEmbed \<equiv> liveEmbed sd (dateNow e (Suc (steps w2))) (thumb @ ''?t='' @ string_of_int now)"
  assumes "ensureChannel e name w = (Inr (Some cid), w1)"
    and "fetchIsLive e cid w1 = (Inr (Some sd), w2)"
    and "selectOpenSession cid (db w2) = Some row"
    and "thumbnailURL row = Some thumb" and "thumb \<noteq> []"
    and "THUMBNAIL_REFRESH_INTERVAL \<le> now - (case lastThumbUpdate row of None \<Rightarrow> 0 | Some t \<Rightarrow> t)"
    and "runSetters e (liveSetters sd) = None"
    and "runSetters e [SetTimestamp (dateNow e (Suc (steps w2))),
                       SetImage (thumb @ ''?t='' @ string_of_int now)] = None"
    and "editMessage e (Suc (Suc (steps w2))) mid (content e) updatedEmbed = Inl err"
  shows "webhook (checkChannel e name w) = webhook w @ [(EditMessage mid (content e) updatedEmbed, db w1)]
    \<and> ChannelData (db (checkChannel e name w)) = ChannelData (db w)
    \<and> selectOpenSession cid (db (checkChannel e name w)) = Some row
    \<and> MessageHistory (db (checkChannel e name w)) = MessageHistory (db w)
    \<and> ErrorLog (db (checkChannel e name w)) = ErrorLog (db w) @
         [\<lparr>id' = nextRowid (map id' (ErrorLog (db w))),
           timestamp = dateNow e (Suc (Suc (Suc (steps w2)))),
           errorType = ''ThumbnailRefresh'', description = Some (message err),
           line = parseErrorLine (stack err),
           trace = Some (case stack err of None \<Rightarrow> [] | Some s \<Rightarrow> s)\<rparr>]"
proof -
  have frame: "db w2 = db w1" "webhook w2 = webhook w" "ChannelData (db w1) = ChannelData (db w)"
    "MessageHistory (db w1) = MessageHistory (db w)" "ErrorLog (db w1) = ErrorLog (db w)"
    using fetchIsLive_frame[OF assms(5)] ensureChannel_frame[OF assms(4)] by simp_all
  have run: "checkChannel e name w = (case stillLive e sd row w2 of
                 (Some err, w3) \<Rightarrow> logError e err ''checkAllChannels'' w3
               | (None, w3) \<Rightarrow> w3)"
    using checkChannel_cases[OF assms(4,5)] assms(6) by simp
  note r = stillLive_refresh[OF assms(7,8) assms(9)[unfolded now_def] assms(10)
      assms(11)[unfolded now_def]]
  have res: "checkChannel e name w = logError e err ''ThumbnailRefresh''
      (w2\<lparr>steps := Suc (Suc (Suc (steps w2))),
           webhook := webhook w2 @ [(EditMessage mid (content e) updatedEmbed, db w2)]\<rparr>)"
    unfolding run r Let_def using assms(12)[unfolded mid_def updatedEmbed_def now_def]
    by (simp add: mid_def updatedEmbed_def now_def)
  have cd: "ChannelData (db (checkChannel e name w)) = ChannelData (db w2)"
    unfolding res by simp
  have "selectOpenSession cid (db (checkChannel e name w)) = selectOpenSession cid (db w2)"
    by (rule selectOpenSession_cong[OF cd])
  then show ?thesis
    using assms(6) frame unfolding res
    by (simp add: insertErrorLog_ErrorLog)
qed

theorem continue_failed_edit_logged_witness:
  "ensureChannel (scenarioEnv (T0 + 660000) liveStreams editFails) ''nova'' (worldWith [novaSession])
     = (Inr (Some ''42''), worldWith [novaSession])
   \<and> fetchIsLive (scenarioEnv (T0 + 660000) liveStreams editFails) ''42'' (worldWith [novaSession])
     = (Inr (Some nova), tick (tick (worldWith [novaSession])))
   \<and> selectOpenSession ''42'' (db (tick (tick (worldWith [novaSession])))) = Some novaSession
   \<and> thumbnailURL novaSession = Some ''https://x/1280x720.jpg''
   \<and> ''https://x/1280x720.jpg'' \<noteq> []
   \<and> THUMBNAIL_REFRESH_INTERVAL \<le> (T0 + 660000) - T0
   \<and> embedBuilder (scenarioEnv (T0 + 660000) liveStreams editFails) = acceptsAll
   \<and> ChannelData (db (checkChannel (scenarioEnv (T0 + 660000) liveStreams editFails) ''nova''
         (worldWith [novaSession]))) = [novaSession]
   \<and> ErrorLog (db (checkChannel (scenarioEnv (T0 + 660000) liveStreams editFails) ''nova''
         (worldWith [novaSession])))
     = [\<lparr>id' = 1, timestamp = T0 + 660000, errorType = ''ThumbnailRefresh'',
         description = Some ''fetch failed'', line = Some 191,
         trace = Some (''TypeError: fetch failed'' @ [CHR 0x0A]
                         @ ''    at fetchIsLive (/app/src/index.ts:191:22)'')\<rparr>]"
proof -
  let ?E = "scenarioEnv (T0 + 660000) liveStreams editFails"
  let ?w = "worldWith [novaSession]"
  have h1: "ensureChannel ?E ''nova'' ?w = (Inr (Some ''42''), ?w)" by code_simp
  have h2: "fetchIsLive ?E ''42'' ?w = (Inr (Some nova), tick (tick ?w))" by code_simp
  have h3: "selectOpenSession ''42'' (db (tick (tick ?w))) = Some novaSession" by code_simp
  have h4: "thumbnailURL novaSession = Some ''https://x/1280x720.jpg''" by (simp add: novaSession_def)
  have h5: "''https://x/1280x720.jpg'' \<noteq> []" by simp
  have clock: "dateNow ?E k = T0 + 660000" for k by (simp add: scenarioEnv_def)
  have h6: "THUMBNAIL_REFRESH_INTERVAL \<le> dateNow ?E (steps (tick (tick ?w)))
      - (case lastThumbUpdate novaSession of None \<Rightarrow> 0 | Some t \<Rightarrow> t)"
    by (simp add: clock novaSession_def THUMBNAIL_REFRESH_INTERVAL_def)
  have h7: "editMessage ?E k m c emb = Inl networkError" for k m c emb
    by (simp add: scenarioEnv_def editFails_def)
  have v1: "parseErrorLine (stack networkError) = Some 191" by code_simp
  have v3: "message networkError = ''fetch failed''"
    "(case stack networkError of None \<Rightarrow> [] | Some s \<Rightarrow> s)
       = ''TypeError: fetch failed'' @ [CHR 0x0A] @ ''    at fetchIsLive (/app/src/index.ts:191:22)''"
    by (simp_all add: networkError_def)
  have v2: "ChannelData (db ?w) = [novaSession]" "ErrorLog (db ?w) = []"
    by (simp_all add: worldWith_def)
  have acc: "embedBuilder ?E = acceptsAll" by (simp add: scenarioEnv_def)
  from continue_failed_edit_logged[OF h1 h2 h3 h4 h5 h6 runSetters_acceptsAll[OF acc]
      runSetters_acceptsAll[OF acc] h7] h1 h2 h3 h4 acc
  show ?thesis
    by (simp add: clock v1 v2 v3 nextRowid_def THUMBNAIL_REFRESH_INTERVAL_def)
qed

theorem continue_failed_edit_counterexample:
  "fetchIsLive (scenarioEnv (T0 + 660000) liveStreams editFails) ''42'' (worldWith [novaSession])
     = (Inr (Some nova), tick (tick (worldWith [novaSession])))
   \<and> selectOpenSession ''42'' (db (worldWith [novaSession])) = Some novaSession
   \<and> THUMBNAIL_REFRESH_INTERVAL \<le> (T0 + 660000) - T0
   \<and> map errorType (ErrorLog (db (checkChannel (scenarioEnv (T0 + 660000) liveStreams editFails)
         ''nova'' (worldWith [novaSession])))) = [''ThumbnailRefresh'']
   \<and> map (ChannelData \<circ> snd) (webhook (checkChannel (scenarioEnv (T0 + 660000) liveStreams editFails)
         ''nova'' (worldWith [novaSession]))) = [[novaSession]]
   \<and> lastThumbUpdate novaSession = Some T0
   \<and> selectOpenSession ''42'' (db (checkChannel (scenarioEnv (T0 + 660000) liveStreams editFails)
         ''nova'' (worldWith [novaSession]))) = Some novaSession
   \<and> map lastThumbUpdate (ChannelData (db (checkChannel (scenarioEnv (T0 + 660000) liveStreams editFails)
         ''nova'' (worldWith [novaSession])))) \<noteq> [Some (T0 + 660000)]"
  by code_simp

section \<open>An unknown oracle answer\<close>

lemma logError_fetchStreams [simp]:
  "logError (e\<lparr>fetchStreams := f\<rparr>) err ty w = logError e err ty w"
  by (simp add: logError_def Date_now_def)

lemma fetchChannelID_fetchStreams [simp]:
  "fetchChannelID (e\<lparr>fetchStreams := f\<rparr>) name w = fetchChannelID e name w"
  by (simp add: fetchChannelID_def Let_def split: sum.splits option.splits list.splits)

lemma registerChannel_fetchStreams [simp]:
  "registerChannel (e\<lparr>fetchStreams := f\<rparr>) name w = registerChannel e name w"
  by (simp add: registerChannel_def insertChannel_def
        split: prod.splits sum.splits option.splits)

lemma ensureChannel_fetchStreams [simp]:
  "ensureChannel (e\<lparr>fetchStreams := f\<rparr>) name w = ensureChannel e name w"
  by (simp add: ensureChannel_def split: option.splits)

lemma stopSession_fetchStreams [simp]:
  "stopSession (e\<lparr>fetchStreams := f\<rparr>) name cid row w = stopSession e name cid row w"
  by (simp add: stopSession_eq content_def Let_def split: sum.splits)

lemma fetchIsLive_not_ok:
  assumes "getTwitchToken e (steps w) = Inr token"
    and "fetchStreams e (Suc (steps w)) (''https://api.twitch.tv/helix/streams?user_id='' @ cid) token
           = Inr resp"
    and "\<not> ok resp"
  shows "fetchIsLive e cid w = (Inr None, tick (tick w))"
  using assms by (simp add: fetchIsLive_def)

lemma fetchIsLive_offline:
  assumes "getTwitchToken e (steps w) = Inr token"
  shows "fetchIsLive (e\<lparr>fetchStreams := offlineStreams\<rparr>) cid w = (Inr None, tick (tick w))"
  using assms by (simp add: fetchIsLive_def offlineStreams_def)

text \<open>
  C5. The liveness query fails without throwing (the response is not OK): \<^verbatim>\<open>fetchIsLive\<close>
  returns null, and the iteration does exactly what it does when Twitch confirms that the
  channel is offline (an OK response with no stream): an open session is closed by Stop,
  and without one nothing happens.
\<close>

theorem unknown_treated_as_offline:
  assumes "ensureChannel e name w = (Inr (Some cid), w1)"
    and "getTwitchToken e (steps w1) = Inr token"
    and "fetchStreams e (Suc (steps w1)) (''https://api.twitch.tv/helix/streams?user_id='' @ cid) token
           = Inr resp"
    and "\<not> ok resp"
  shows "fetchIsLive e cid w1 = (Inr None, tick (tick w1))
    \<and> checkChannel e name w = checkChannel (e\<lparr>fetchStreams := offlineStreams\<rparr>) name w
    \<and> (\<forall>row. selectOpenSession cid (db w1) = Some row \<longrightarrow>
          checkChannel e name w = stopSession e name cid row (tick (tick w1))
        \<and> row\<lparr>endTime := Some (dateNow e (Suc (Suc (steps w1))))\<rparr>
             \<in> set (ChannelData (db (checkChannel e name w))))
    \<and> (selectOpenSession cid (db w1) = None \<longrightarrow>
          db (checkChannel e name w) = db w1 \<and> webhook (checkChannel e name w) = webhook w)"
proof -
  let ?e' = "e\<lparr>fetchStreams := offlineStreams\<rparr>"
  have live: "fetchIsLive e cid w1 = (Inr None, tick (tick w1))"
    by (rule fetchIsLive_not_ok[OF assms(2,3,4)])
  have live': "fetchIsLive ?e' cid w1 = (Inr None, tick (tick w1))"
    by (rule fetchIsLive_offline[OF assms(2)])
  have ens': "ensureChannel ?e' name w = (Inr (Some cid), w1)"
    using assms(1) by simp
  note run = checkChannel_cases[OF assms(1) live]
  note run' = checkChannel_cases[OF ens' live']
  have same: "checkChannel e name w = checkChannel ?e' name w"
    unfolding run run' by (simp split: option.splits)
  have hook: "webhook w1 = webhook w"
    using ensureChannel_frame[OF assms(1)] by simp
  have stop: "checkChannel e name w = stopSession e name cid row (tick (tick w1))
      \<and> row\<lparr>endTime := Some (dateNow e (Suc (Suc (steps w1))))\<rparr>
             \<in> set (ChannelData (db (checkChannel e name w)))"
    if sel: "selectOpenSession cid (db w1) = Some row" for row
  proof -
    have eq: "checkChannel e name w = stopSession e name cid row (tick (tick w1))"
      unfolding run using sel by simp
    have "row \<in> set (ChannelData (db (tick (tick w1))))"
      using selectOpenSession_Some[OF sel] by simp
    from stopSession_closes[OF this, of e name cid] eq show ?thesis by simp
  qed
  have noop: "db (checkChannel e name w) = db w1 \<and> webhook (checkChannel e name w) = webhook w"
    if "selectOpenSession cid (db w1) = None"
    unfolding run using that hook by simp
  from live same stop noop show ?thesis by blast
qed

theorem unknown_treated_as_offline_witness:
  "ensureChannel (scenarioEnv (T0 + 2700000) unknownStreams editSucceeds) ''nova'' (worldWith [novaSession])
     = (Inr (Some ''42''), worldWith [novaSession])
   \<and> getTwitchToken (scenarioEnv (T0 + 2700000) unknownStreams editSucceeds) (steps (worldWith [novaSession]))
     = Inr ''token''
   \<and> fetchStreams (scenarioEnv (T0 + 2700000) unknownStreams editSucceeds)
        (Suc (steps (worldWith [novaSession]))) (''https://api.twitch.tv/helix/streams?user_id='' @ ''42'')
        ''token'' = Inr \<lparr>ok = False, json = Inr None\<rparr>
   \<and> \<not> ok \<lparr>ok = False, json = Inr (None :: IStreamData list option)\<rparr>
   \<and> selectOpenSession ''42'' (db (worldWith [novaSession])) = Some novaSession
   \<and> checkChannel (scenarioEnv (T0 + 2700000) unknownStreams editSucceeds) ''nova'' (worldWith [novaSession])
     = checkChannel ((scenarioEnv (T0 + 2700000) unknownStreams editSucceeds)\<lparr>fetchStreams := offlineStreams\<rparr>)
         ''nova'' (worldWith [novaSession])
   \<and> novaSession\<lparr>endTime := Some (T0 + 2700000)\<rparr>
       \<in> set (ChannelData (db (checkChannel (scenarioEnv (T0 + 2700000) unknownStreams editSucceeds)
              ''nova'' (worldWith [novaSession]))))
   \<and> ensureChannel (scenarioEnv (T0 + 2700000) unknownStreams editSucceeds) ''nova'' (worldWith [])
     = (Inr (Some ''42''), worldWith [])
   \<and> selectOpenSession ''42'' (db (worldWith [])) = None
   \<and> db (checkChannel (scenarioEnv (T0 + 2700000) unknownStreams editSucceeds) ''nova'' (worldWith []))
     = db (worldWith [])
   \<and> webhook (checkChannel (scenarioEnv (T0 + 2700000) unknownStreams editSucceeds) ''nova'' (worldWith []))
     = []"
proof -
  let ?E = "scenarioEnv (T0 + 2700000) unknownStreams editSucceeds"
  let ?w = "worldWith [novaSession]"
  let ?v = "worldWith []"
  have h1: "ensureChannel ?E ''nova'' ?w = (Inr (Some ''42''), ?w)" by code_simp
  have h1': "ensureChannel ?E ''nova'' ?v = (Inr (Some ''42''), ?v)" by code_simp
  have h2: "getTwitchToken ?E k = Inr ''token''" for k by (simp add: scenarioEnv_def)
  have h3: "fetchStreams ?E k (''https://api.twitch.tv/helix/streams?user_id='' @ ''42'') ''token''
      = Inr \<lparr>ok = False, json = Inr None\<rparr>" for k
    by (simp add: scenarioEnv_def unknownStreams_def)
  have h4: "\<not> ok \<lparr>ok = False, json = Inr (None :: IStreamData list option)\<rparr>" by simp
  have s1: "selectOpenSession ''42'' (db ?w) = Some novaSession" by code_simp
  have s2: "selectOpenSession ''42'' (db ?v) = None" by code_simp
  have clock: "dateNow ?E k = T0 + 2700000" for k by (simp add: scenarioEnv_def)
  have empty: "webhook ?v = []" by (simp add: worldWith_def)
  note open' = unknown_treated_as_offline[OF h1 h2 h3 h4]
  note none = unknown_treated_as_offline[OF h1' h2 h3 h4]
  note closed = open'[THEN conjunct2, THEN conjunct2, THEN conjunct1, THEN spec, THEN mp, OF s1,
    THEN conjunct2]
  note noop = none[THEN conjunct2, THEN conjunct2, THEN conjunct2, THEN mp, OF s2]
  from open'[THEN conjunct2, THEN conjunct1] closed noop h1 h1' h2 h3 s1 s2
  show ?thesis
    by (simp add: clock empty)
qed

section \<open>Exceptions stay inside the iteration of their channel\<close>

lemma checkAllChannels_append:
  "checkAllChannels e (xs @ ys) w = checkAllChannels e ys (checkAllChannels e xs w)"
  by (induction xs arbitrary: w) simp_all

lemma checkChannel_throws:
  assumes "channelBody e name w = (Some err, w')"
  shows "checkChannel e name w = logError e err ''checkAllChannels'' w'"
  using assms by (simp add: checkChannel_def)

lemma channelBody_oracle_throws:
  assumes "ensureChannel e name w = (Inr (Some cid), w1)"
    and "fetchIsLive e cid w1 = (Inl err, w2)"
  shows "channelBody e name w = (Some err, w2)"
  using assms by (simp add: channelBody_def)

lemma channelBody_resolve_throws:
  assumes "ensureChannel e name w = (Inl err, w1)"
  shows "channelBody e name w = (Some err, w1)"
  using assms by (simp add: channelBody_def)

text \<open>
  C6. An exception that leaves the body of the loop for one channel is caught by the
  \<^verbatim>\<open>catch\<close> of that iteration and logged with the category \<open>checkAllChannels\<close>: one row
  with the time, the category, the message, the line parsed from the stack and the
  stack. When the oracle throws (the liveness query, or the identity lookup of step 1),
  the sessions, the history and the webhook calls are as before. The loop then goes on
  with the remaining channels.
\<close>

theorem channel_exception_caught:
  "(channelBody e name w = (Some err, w') \<longrightarrow>
      checkChannel e name w = logError e err ''checkAllChannels'' w'
    \<and> ErrorLog (db (checkChannel e name w)) = ErrorLog (db w') @
         [\<lparr>id' = nextRowid (map id' (ErrorLog (db w'))), timestamp = dateNow e (steps w'),
           errorType = ''checkAllChannels'', description = Some (message err),
           line = parseErrorLine (stack err),
           trace = Some (case stack err of None \<Rightarrow> [] | Some s \<Rightarrow> s)\<rparr>]
    \<and> Channels (db (checkChannel e name w)) = Channels (db w')
    \<and> ChannelData (db (checkChannel e name w)) = ChannelData (db w')
    \<and> MessageHistory (db (checkChannel e name w)) = MessageHistory (db w')
    \<and> webhook (checkChannel e name w) = webhook w')
 \<and> ((ensureChannel e name w = (Inr (Some cid), wr) \<and> fetchIsLive e cid wr = (Inl err, wt)
       \<or> ensureChannel e name w = (Inl err, wt)) \<longrightarrow>
      channelBody e name w = (Some err, wt)
    \<and> ChannelData (db (checkChannel e name w)) = ChannelData (db w)
    \<and> MessageHistory (db (checkChannel e name w)) = MessageHistory (db w)
    \<and> webhook (checkChannel e name w) = webhook w
    \<and> ErrorLog (db (checkChannel e name w)) = ErrorLog (db w) @
         [\<lparr>id' = nextRowid (map id' (ErrorLog (db w))), timestamp = dateNow e (steps wt),
           errorType = ''checkAllChannels'', description = Some (message err),
           line = parseErrorLine (stack err),
           trace = Some (case stack err of None \<Rightarrow> [] | Some s \<Rightarrow> s)\<rparr>])
 \<and> checkAllChannels e (before @ name # rest) w
      = checkAllChannels e rest (checkChannel e name (checkAllChannels e before w))"
proof (intro conjI impI)
  assume b: "channelBody e name w = (Some err, w')"
  note c = checkChannel_throws[OF b]
  show "checkChannel e name w = logError e err ''checkAllChannels'' w'" by (rule c)
  show "ErrorLog (db (checkChannel e name w)) = ErrorLog (db w') @
         [\<lparr>id' = nextRowid (map id' (ErrorLog (db w'))), timestamp = dateNow e (steps w'),
           errorType = ''checkAllChannels'', description = Some (message err),
           line = parseErrorLine (stack err),
           trace = Some (case stack err of None \<Rightarrow> [] | Some s \<Rightarrow> s)\<rparr>]"
    unfolding c by (simp add: insertErrorLog_ErrorLog)
  show "Channels (db (checkChannel e name w)) = Channels (db w')"
    "ChannelData (db (checkChannel e name w)) = ChannelData (db w')"
    "MessageHistory (db (checkChannel e name w)) = MessageHistory (db w')"
    "webhook (checkChannel e name w) = webhook w'"
    unfolding c by simp_all
next
  assume o: "ensureChannel e name w = (Inr (Some cid), wr) \<and> fetchIsLive e cid wr = (Inl err, wt)
       \<or> ensureChannel e name w = (Inl err, wt)"
  have b: "channelBody e name w = (Some err, wt)"
    using o channelBody_oracle_throws channelBody_resolve_throws by blast
  have frame: "ChannelData (db wt) = ChannelData (db w) \<and> MessageHistory (db wt) = MessageHistory (db w)
      \<and> ErrorLog (db wt) = ErrorLog (db w) \<and> webhook wt = webhook w"
    using o
  proof
    assume a: "ensureChannel e name w = (Inr (Some cid), wr) \<and> fetchIsLive e cid wr = (Inl err, wt)"
    from ensureChannel_frame[OF a[THEN conjunct1]] fetchIsLive_frame[OF a[THEN conjunct2]]
    show ?thesis by simp
  next
    assume a: "ensureChannel e name w = (Inl err, wt)"
    from ensureChannel_frame[OF a] show ?thesis by simp
  qed
  note c = checkChannel_throws[OF b]
  show "channelBody e name w = (Some err, wt)" by (rule b)
  show "ChannelData (db (checkChannel e name w)) = ChannelData (db w)"
    "MessageHistory (db (checkChannel e name w)) = MessageHistory (db w)"
    "webhook (checkChannel e name w) = webhook w"
    unfolding c using frame by simp_all
  show "ErrorLog (db (checkChannel e name w)) = ErrorLog (db w) @
         [\<lparr>id' = nextRowid (map id' (ErrorLog (db w))), timestamp = dateNow e (steps wt),
           errorType = ''checkAllChannels'', description = Some (message err),
           line = parseErrorLine (stack err),
           trace = Some (case stack err of None \<Rightarrow> [] | Some s \<Rightarrow> s)\<rparr>]"
    unfolding c using frame by (simp add: insertErrorLog_ErrorLog)
next
  show "checkAllChannels e (before @ name # rest) w
      = checkAllChannels e rest (checkChannel e name (checkAllChannels e before w))"
    by (simp add: checkAllChannels_append)
qed

theorem channel_exception_caught_witness:
  "channelBody (scenarioEnv T0 throwingStreams editSucceeds) ''nova'' (worldWith [novaSession])
     = (Some networkError, tick (tick (worldWith [novaSession])))
   \<and> ensureChannel (scenarioEnv T0 throwingStreams editSucceeds) ''nova'' (worldWith [novaSession])
     = (Inr (Some ''42''), worldWith [novaSession])
   \<and> fetchIsLive (scenarioEnv T0 throwingStreams editSucceeds) ''42'' (worldWith [novaSession])
     = (Inl networkError, tick (tick (worldWith [novaSession])))
   \<and> ChannelData (db (checkChannel (scenarioEnv T0 throwingStreams editSucceeds) ''nova''
        (worldWith [novaSession]))) = [novaSession]
   \<and> ErrorLog (db (checkChannel (scenarioEnv T0 throwingStreams editSucceeds) ''nova''
        (worldWith [novaSession])))
     = [\<lparr>id' = 1, timestamp = T0, errorType = ''checkAllChannels'',
         description = Some ''fetch failed'', line = Some 191,
         trace = Some (''TypeError: fetch failed'' @ [CHR 0x0A]
                         @ ''    at fetchIsLive (/app/src/index.ts:191:22)'')\<rparr>]
   \<and> map description (ErrorLog (db (checkAllChannels (scenarioEnv T0 throwingStreams editSucceeds)
        ([] @ ''nova'' # [''vega'']) (worldWith [novaSession]))))
     = [Some ''fetch failed'', Some ''UNIQUE constraint failed: Channels.channelID'']"
proof -
  let ?E = "scenarioEnv T0 throwingStreams editSucceeds"
  let ?w = "worldWith [novaSession]"
  have h0: "channelBody ?E ''nova'' ?w = (Some networkError, tick (tick ?w))" by code_simp
  have h1: "ensureChannel ?E ''nova'' ?w = (Inr (Some ''42''), ?w)" by code_simp
  have h2: "fetchIsLive ?E ''42'' ?w = (Inl networkError, tick (tick ?w))" by code_simp
  have h12: "ensureChannel ?E ''nova'' ?w = (Inr (Some ''42''), ?w)
        \<and> fetchIsLive ?E ''42'' ?w = (Inl networkError, tick (tick ?w))
      \<or> ensureChannel ?E ''nova'' ?w = (Inl networkError, tick (tick ?w))"
    using h1 h2 by simp
  have clock: "dateNow ?E k = T0" for k by (simp add: scenarioEnv_def)
  have v1: "parseErrorLine (stack networkError) = Some 191" by code_simp
  have v2: "ChannelData (db ?w) = [novaSession]" "ErrorLog (db ?w) = []"
    by (simp_all add: worldWith_def)
  have v3: "message networkError = ''fetch failed''"
    "(case stack networkError of None \<Rightarrow> [] | Some s \<Rightarrow> s)
       = ''TypeError: fetch failed'' @ [CHR 0x0A] @ ''    at fetchIsLive (/app/src/index.ts:191:22)''"
    by (simp_all add: networkError_def)
  have v4: "map description (ErrorLog (db (checkAllChannels ?E [''vega'']
        (checkChannel ?E ''nova'' (checkAllChannels ?E [] ?w)))))
     = [Some ''fetch failed'', Some ''UNIQUE constraint failed: Channels.channelID'']"
    by code_simp
  note t = channel_exception_caught[where e = ?E and name = "''nova''" and w = ?w
      and err = networkError and w' = "tick (tick ?w)" and cid = "''42''" and wr = ?w
      and wt = "tick (tick ?w)" and before = "[]" and rest = "[''vega'']"]
  note caught = t[THEN conjunct1, THEN mp, OF h0]
  note thrown = t[THEN conjunct2, THEN conjunct1, THEN mp, OF h12]
  note loop = t[THEN conjunct2, THEN conjunct2]
  have l: "map description (ErrorLog (db (checkAllChannels ?E ([] @ ''nova'' # [''vega'']) ?w)))
     = [Some ''fetch failed'', Some ''UNIQUE constraint failed: Channels.channelID'']"
    unfolding loop by (rule v4)
  from thrown l h0 h1 h2
  show ?thesis
    by (simp add: clock v1 v2 v3 nextRowid_def)
qed

section \<open>What one iteration can do to the sessions\<close>

lemma stillLive_ChannelData:
  assumes "stillLive e sd row w = (r, w')"
  shows "steps w \<le> steps w' \<and>
    (ChannelData (db w') = ChannelData (db w)
     \<or> (\<exists>t. ChannelData (db w')
             = map (\<lambda>r. if rowid r = rowid row then r\<lparr>lastThumbUpdate := Some t\<rparr> else r)
                 (ChannelData (db w))))"
proof (cases r)
  case (Some err)
  from stillLive_throws[OF assms[unfolded Some]] show ?thesis by simp
next
  case None
  note res = assms[unfolded None]
  show ?thesis
  proof (cases "thumbnailURL row")
    case None
    with res show ?thesis by (simp add: stillLive_no_thumbnail)
  next
    case (Some thumb)
    show ?thesis
    proof (cases "thumb = []")
      case True
      with Some res show ?thesis by (simp add: stillLive_empty_thumbnail)
    next
      case False
      let ?elapsed = "dateNow e (steps w) - (case lastThumbUpdate row of None \<Rightarrow> 0 | Some t \<Rightarrow> t)"
      let ?last = "[SetTimestamp (dateNow e (Suc (steps w))),
          SetImage (thumb @ ''?t='' @ string_of_int (dateNow e (steps w)))]"
      show ?thesis
      proof (cases "?elapsed < THUMBNAIL_REFRESH_INTERVAL")
        case True
        from stillLive_before_interval[OF Some False True, of sd] res show ?thesis by simp
      next
        case ge: False
        then have ge': "THUMBNAIL_REFRESH_INTERVAL \<le> ?elapsed" by simp
        have a1: "runSetters e (liveSetters sd) = None"
        proof (cases "runSetters e (liveSetters sd)")
          case None
          then show ?thesis .
        next
          case (Some err)
          from stillLive_rejected[OF \<open>thumbnailURL row = Some thumb\<close> False ge' disjI1[OF Some]] res
          show ?thesis by simp
        qed
        have a2: "runSetters e ?last = None"
        proof (cases "runSetters e ?last")
          case None
          then show ?thesis .
        next
          case (Some err)
          from stillLive_rejected[OF \<open>thumbnailURL row = Some thumb\<close> False ge'
              disjI2[OF conjI[OF a1 Some]]] res
          show ?thesis by simp
        qed
        note r = stillLive_refresh[OF Some False ge' a1 a2]
        show ?thesis
        proof (cases "editMessage e (Suc (Suc (steps w)))
              (case messageID row of None \<Rightarrow> [] | Some m \<Rightarrow> m) (content e)
              (liveEmbed sd (dateNow e (Suc (steps w)))
                 (thumb @ ''?t='' @ string_of_int (dateNow e (steps w))))")
          case (Inl err)
          with res r show ?thesis by (auto simp: Let_def)
        next
          case (Inr u)
          with res r have "w' = w\<lparr>steps := Suc (Suc (Suc (steps w))),
              webhook := webhook w @ [(EditMessage (case messageID row of None \<Rightarrow> [] | Some m \<Rightarrow> m)
                 (content e) (liveEmbed sd (dateNow e (Suc (steps w)))
                 (thumb @ ''?t='' @ string_of_int (dateNow e (steps w)))), db w)],
              db := updateLastThumbUpdate (dateNow e (steps w)) (rowid row) (db w)\<rparr>"
            by (auto simp: Let_def)
          then have "steps w \<le> steps w'"
            and "ChannelData (db w')
             = map (\<lambda>r. if rowid r = rowid row then r\<lparr>lastThumbUpdate := Some (dateNow e (steps w))\<rparr>
                         else r) (ChannelData (db w))"
            by simp_all
          then show ?thesis by blast
        qed
      qed
    qed
  qed
qed

lemma stopSession_steps: "steps w < steps (stopSession e name cid row w)"
  by (simp add: stopSession_eq Let_def split: sum.splits)

lemma startSession_ChannelData:
  assumes "startSession e name cid sd base w = (r, w')"
  shows "steps w < steps w' \<and>
    (ChannelData (db w') = ChannelData (db w)
     \<or> (\<exists>mid ml k. steps w < k \<and> k < steps w' \<and>
           ChannelData (db w') = ChannelData (db w) @
             [\<lparr>rowid = nextRowid (map rowid (ChannelData (db w))), channel = cid,
               startTime = dateNow e (steps w), endTime = None, messageID = Some mid,
               messageLink = Some ml, thumbnailURL = Some base,
               lastThumbUpdate = Some (dateNow e k)\<rparr>]))"
proof -
  let ?first = "liveSetters sd @ [SetTimestamp (dateNow e (steps w))]"
  let ?img = "SetImage (base @ ''?t='' @ string_of_int (dateNow e (Suc (steps w))))"
  show ?thesis
  proof (cases "runSetters e ?first = None \<and> embedBuilder e ?img = None")
    case False
    then obtain err where "runSetters e ?first = Some err
        \<or> runSetters e ?first = None \<and> embedBuilder e ?img = Some err"
      by (cases "runSetters e ?first"; cases "embedBuilder e ?img") auto
    from startSession_rejected[OF this, of name cid] assms show ?thesis by auto
  next
    case True
    note eq = startSession_eq[OF True[THEN conjunct1] True[THEN conjunct2], of name cid]
    show ?thesis
    proof (cases "send e (Suc (Suc (steps w))) (content e)
          (liveEmbed sd (dateNow e (steps w))
             (base @ ''?t='' @ string_of_int (dateNow e (Suc (steps w)))))")
      case (Inl err)
      with assms show ?thesis unfolding eq Let_def by auto
    next
      case (Inr mid)
      with assms have w': "w' = w\<lparr>db := insertChannelData cid (dateNow e (steps w)) mid
            (''https://discord.com/channels/.../'' @ mid) base
            (dateNow e (Suc (Suc (Suc (steps w))))) (db w),
          steps := Suc (Suc (Suc (Suc (steps w)))),
          webhook := webhook w @ [(Send (content e)
              (liveEmbed sd (dateNow e (steps w))
                 (base @ ''?t='' @ string_of_int (dateNow e (Suc (steps w))))), db w)]\<rparr>"
        unfolding eq Let_def by auto
      have "\<exists>mid ml k. steps w < k \<and> k < steps w' \<and>
               ChannelData (db w') = ChannelData (db w) @
                 [\<lparr>rowid = nextRowid (map rowid (ChannelData (db w))), channel = cid,
                   startTime = dateNow e (steps w), endTime = None, messageID = Some mid,
                   messageLink = Some ml, thumbnailURL = Some base,
                   lastThumbUpdate = Some (dateNow e k)\<rparr>]"
        apply (rule exI[of _ mid], rule exI[of _ "''https://discord.com/channels/.../'' @ mid"],
            rule exI[of _ "Suc (Suc (Suc (steps w)))"])
        by (simp add: w')
      moreover have "steps w < steps w'" by (simp add: w')
      ultimately show ?thesis by blast
    qed
  qed
qed

text \<open>The four things an iteration can do to \<open>ChannelData\<close>: nothing, append an open
  session for a channel that had none, refresh the row selected as open, close the row
  selected as open.\<close>

lemma checkChannel_ChannelData:
  "steps w \<le> steps (checkChannel e name w) \<and>
   (ChannelData (db (checkChannel e name w)) = ChannelData (db w)
    \<or> (\<exists>cid k k' mid ml th.
          selectOpenSession cid (db w) = None \<and> steps w \<le> k \<and> k < k'
          \<and> k' < steps (checkChannel e name w)
          \<and> ChannelData (db (checkChannel e name w)) = ChannelData (db w) @
               [\<lparr>rowid = nextRowid (map rowid (ChannelData (db w))), channel = cid,
                 startTime = dateNow e k, endTime = None, messageID = Some mid,
                 messageLink = Some ml, thumbnailURL = Some th,
                 lastThumbUpdate = Some (dateNow e k')\<rparr>])
    \<or> (\<exists>cid row t.
          selectOpenSession cid (db w) = Some row
          \<and> ChannelData (db (checkChannel e name w))
               = map (\<lambda>r. if rowid r = rowid row then r\<lparr>lastThumbUpdate := Some t\<rparr> else r)
                   (ChannelData (db w)))
    \<or> (\<exists>cid row k.
          selectOpenSession cid (db w) = Some row \<and> steps w \<le> k
          \<and> k < steps (checkChannel e name w)
          \<and> ChannelData (db (checkChannel e name w))
               = map (\<lambda>r. if rowid r = rowid row then r\<lparr>endTime := Some (dateNow e k)\<rparr> else r)
                   (ChannelData (db w))))"
  (is "?S \<and> (?same \<or> ?start \<or> ?refresh \<or> ?stop)")
proof (cases "ensureChannel e name w")
  case (Pair r1 w1)
  note f1 = ensureChannel_frame[OF Pair]
  show ?thesis
  proof (cases r1)
    case (Inl err)
    with Pair have "checkChannel e name w = logError e err ''checkAllChannels'' w1"
      by (simp add: checkChannel_resolve_throws)
    with f1 show ?thesis by simp
  next
    case (Inr ro)
    show ?thesis
    proof (cases ro)
      case None
      with Pair Inr have "checkChannel e name w = w1" by (simp add: checkChannel_continue)
      with f1 show ?thesis by simp
    next
      case (Some cid)
      with Pair Inr have ens: "ensureChannel e name w = (Inr (Some cid), w1)" by simp
      show ?thesis
      proof (cases "fetchIsLive e cid w1")
        case (Pair r2 w2)
        note f2 = fetchIsLive_frame[OF Pair]
        have cd2: "ChannelData (db w2) = ChannelData (db w)" and st2: "steps w \<le> steps w2"
          using f1 f2 by simp_all
        have sel2: "selectOpenSession c (db w2) = selectOpenSession c (db w)" for c
          by (rule selectOpenSession_cong[OF cd2])
        show ?thesis
        proof (cases r2)
          case (Inl err)
          with Pair ens have "checkChannel e name w = logError e err ''checkAllChannels'' w2"
            by (simp add: checkChannel_oracle_throws)
          with cd2 st2 show ?thesis by simp
        next
          case (Inr streamData)
          with Pair have live: "fetchIsLive e cid w1 = (Inr streamData, w2)" by simp
          note run = checkChannel_cases[OF ens live]
          show ?thesis
          proof (cases streamData)
            case None
            show ?thesis
            proof (cases "selectOpenSession cid (db w)")
              case None
              with \<open>streamData = None\<close> run sel2 have "checkChannel e name w = w2" by simp
              with cd2 st2 show ?thesis by simp
            next
              case (Some row)
              with \<open>streamData = None\<close> run sel2
              have r: "checkChannel e name w = stopSession e name cid row w2" by simp
              have "?stop"
                apply (rule exI[of _ cid], rule exI[of _ row], rule exI[of _ "steps w2"])
                using Some st2 stopSession_steps[of w2 e name cid row] cd2
                by (simp add: r stopSession_ChannelData)
              moreover have ?S using st2 stopSession_steps[of w2 e name cid row] by (simp add: r)
              ultimately show ?thesis by blast
            qed
          next
            case (Some sd)
            show ?thesis
            proof (cases "selectOpenSession cid (db w)")
              case (Some row)
              with \<open>streamData = Some sd\<close> run sel2
              obtain r3 w3 where s: "stillLive e sd row w2 = (r3, w3)"
                by (cases "stillLive e sd row w2")
              note f3 = stillLive_ChannelData[OF s]
              have r: "checkChannel e name w
                  = (case r3 of Some err \<Rightarrow> logError e err ''checkAllChannels'' w3 | None \<Rightarrow> w3)"
                using \<open>streamData = Some sd\<close> run sel2 Some s by (simp split: option.splits)
              have cd: "ChannelData (db (checkChannel e name w)) = ChannelData (db w3)"
                and st: "steps w3 \<le> steps (checkChannel e name w)"
                unfolding r by (simp_all split: option.splits)
              have ?S using st st2 f3 by simp
              moreover have "?same \<or> ?refresh"
                using f3 Some cd2 unfolding cd by auto
              ultimately show ?thesis by blast
            next
              case None
              let ?base = "replace ''{height}'' ''720'' (replace ''{width}'' ''1280'' (thumbnail_url sd))"
              obtain r3 w3 where s: "startSession e name cid sd ?base w2 = (r3, w3)"
                by (cases "startSession e name cid sd ?base w2")
              note f3 = startSession_ChannelData[OF s]
              have r: "checkChannel e name w
                  = (case r3 of Some err \<Rightarrow> logError e err ''checkAllChannels'' w3 | None \<Rightarrow> w3)"
                using \<open>streamData = Some sd\<close> run sel2 None s by (simp split: option.splits)
              have cd: "ChannelData (db (checkChannel e name w)) = ChannelData (db w3)"
                and st: "steps w3 \<le> steps (checkChannel e name w)"
                unfolding r by (simp_all split: option.splits)
              have ?S using st st2 f3 by simp
              moreover have "?same \<or> ?start"
              proof -
                from f3 consider "ChannelData (db w3) = ChannelData (db w2)"
                  | mid ml k where "steps w2 < k" "k < steps w3"
                      "ChannelData (db w3) = ChannelData (db w2) @
                         [\<lparr>rowid = nextRowid (map rowid (ChannelData (db w2))), channel = cid,
                           startTime = dateNow e (steps w2), endTime = None, messageID = Some mid,
                           messageLink = Some ml, thumbnailURL = Some ?base,
                           lastThumbUpdate = Some (dateNow e k)\<rparr>]"
                  by blast
                then show ?thesis
                proof cases
                  case 1
                  then show ?thesis using cd cd2 by simp
                next
                  case 2
                  have "?start"
                    apply (rule exI[of _ cid], rule exI[of _ "steps w2"], rule exI[of _ k],
                        rule exI[of _ mid], rule exI[of _ ml], rule exI[of _ ?base])
                    using 2 None st st2 cd cd2 by simp
                  then show ?thesis by blast
                qed
              qed
              ultimately show ?thesis by blast
            qed
          qed
        qed
      qed
    qed
  qed
qed

lemma checkChannel_sessions:
  fixes e :: env and name :: string and w :: world
  defines "cd \<equiv> ChannelData (db w)"
  defines "cd' \<equiv> ChannelData (db (checkChannel e name w))"
  obtains (same) "cd' = cd"
  | (start) cid row k where "selectOpenSession cid (db w) = None" and "cd' = cd @ [row]"
      and "rowid row = nextRowid (map rowid cd)" and "channel row = cid"
      and "endTime row = None" and "startTime row = dateNow e k"
      and "k < steps (checkChannel e name w)"
  | (refresh) cid row t where "selectOpenSession cid (db w) = Some row"
      and "cd' = map (\<lambda>r. if rowid r = rowid row then r\<lparr>lastThumbUpdate := Some t\<rparr> else r) cd"
  | (stop) cid row k where "selectOpenSession cid (db w) = Some row" and "steps w \<le> k"
      and "cd' = map (\<lambda>r. if rowid r = rowid row then r\<lparr>endTime := Some (dateNow e k)\<rparr> else r) cd"
proof -
  from checkChannel_ChannelData[of w e name]
  have "cd' = cd
    \<or> (\<exists>cid k k' mid ml th.
          selectOpenSession cid (db w) = None \<and> steps w \<le> k \<and> k < k'
          \<and> k' < steps (checkChannel e name w)
          \<and> cd' = cd @
               [\<lparr>rowid = nextRowid (map rowid cd), channel = cid,
                 startTime = dateNow e k, endTime = None, messageID = Some mid,
                 messageLink = Some ml, thumbnailURL = Some th,
                 lastThumbUpdate = Some (dateNow e k')\<rparr>])
    \<or> (\<exists>cid row t.
          selectOpenSession cid (db w) = Some row
          \<and> cd' = map (\<lambda>r. if rowid r = rowid row then r\<lparr>lastThumbUpdate := Some t\<rparr> else r) cd)
    \<or> (\<exists>cid row k.
          selectOpenSession cid (db w) = Some row \<and> steps w \<le> k
          \<and> k < steps (checkChannel e name w)
          \<and> cd' = map (\<lambda>r. if rowid r = rowid row then r\<lparr>endTime := Some (dateNow e k)\<rparr> else r) cd)"
    unfolding cd_def cd'_def by blast
  then show thesis
  proof (elim disjE exE conjE)
    assume "cd' = cd"
    then show thesis by (rule same)
  next
    fix cid k k' mid ml th
    assume a: "selectOpenSession cid (db w) = None" "k < k'" "k' < steps (checkChannel e name w)"
      "cd' = cd @
               [\<lparr>rowid = nextRowid (map rowid cd), channel = cid,
                 startTime = dateNow e k, endTime = None, messageID = Some mid,
                 messageLink = Some ml, thumbnailURL = Some th,
                 lastThumbUpdate = Some (dateNow e k')\<rparr>]"
    show thesis
      by (rule start[OF a(1) a(4), of k]) (use a(2,3) in simp_all)
  next
    fix cid row t
    assume "selectOpenSession cid (db w) = Some row"
      "cd' = map (\<lambda>r. if rowid r = rowid row then r\<lparr>lastThumbUpdate := Some t\<rparr> else r) cd"
    then show thesis by (rule refresh)
  next
    fix cid row k
    assume "selectOpenSession cid (db w) = Some row" "steps w \<le> k"
      "cd' = map (\<lambda>r. if rowid r = rowid row then r\<lparr>endTime := Some (dateNow e k)\<rparr> else r) cd"
    then show thesis by (rule stop)
  qed
qed

lemma checkChannel_steps: "steps w \<le> steps (checkChannel e name w)"
  using checkChannel_ChannelData[of w e name] by blast

section \<open>At most one open session per channel\<close>

lemma selectOpenSession_None:
  assumes "selectOpenSession cid d = None"
  shows "cid \<notin> set (map channel (filter (\<lambda>r. endTime r = None) (ChannelData d)))"
  using assms unfolding selectOpenSession_def find_None_iff by auto

lemma open_after_refresh:
  "map channel (filter (\<lambda>r. endTime r = None)
      (map (\<lambda>r. if rowid r = rid then r\<lparr>lastThumbUpdate := Some t\<rparr> else r) rows))
   = map channel (filter (\<lambda>r. endTime r = None) rows)"
  by (induction rows) simp_all

lemma open_after_close:
  "map channel (filter (\<lambda>r. endTime r = None)
      (map (\<lambda>r. if rowid r = rid then r\<lparr>endTime := Some t\<rparr> else r) rows))
   = map channel (filter (\<lambda>r. rowid r \<noteq> rid) (filter (\<lambda>r. endTime r = None) rows))"
  by (induction rows) simp_all

lemma checkChannel_oneOpen:
  assumes "oneOpenSessionPerChannel (db w)"
  shows "oneOpenSessionPerChannel (db (checkChannel e name w))"
proof -
  let ?cd = "ChannelData (db w)" and ?cd' = "ChannelData (db (checkChannel e name w))"
  have d: "distinct (map channel (filter (\<lambda>r. endTime r = None) ?cd))"
    using assms by (simp add: oneOpenSessionPerChannel_def)
  have "distinct (map channel (filter (\<lambda>r. endTime r = None) ?cd'))"
  proof (cases rule: checkChannel_sessions[where e = e and name = name and w = w])
    case same
    with d show ?thesis by simp
  next
    case (start cid row k)
    with d selectOpenSession_None[OF start(1)] show ?thesis by simp
  next
    case (refresh cid row t)
    with d show ?thesis by (simp only: open_after_refresh)
  next
    case (stop cid row k)
    with d show ?thesis by (simp only: open_after_close distinct_map_filter)
  qed
  then show ?thesis by (simp add: oneOpenSessionPerChannel_def)
qed

lemma checkAllChannels_oneOpen:
  assumes "oneOpenSessionPerChannel (db w)"
  shows "oneOpenSessionPerChannel (db (checkAllChannels e channels w))"
  using assms by (induction channels arbitrary: w) (simp_all add: checkChannel_oneOpen)

lemma mainLoop_oneOpen:
  assumes "oneOpenSessionPerChannel (db w)"
  shows "oneOpenSessionPerChannel (db (mainLoop e channels n w))"
  using assms by (induction n arbitrary: w) (simp_all add: checkAllChannels_oneOpen)

lemma startBot_oneOpen: "oneOpenSessionPerChannel (db startBot)"
  by (simp add: oneOpenSessionPerChannel_def startBot_def emptyDatabase_def)

lemma distinct_keys_at_most_one:
  assumes "distinct (map f xs)"
  shows "length (filter (\<lambda>x. f x = c) xs) \<le> 1"
  using assms
proof (induction xs)
  case Nil
  then show ?case by simp
next
  case (Cons x xs)
  show ?case
  proof (cases "f x = c")
    case True
    with Cons.prems have "filter (\<lambda>x. f x = c) xs = []"
      by (force simp: filter_empty_conv image_iff)
    with True show ?thesis by simp
  next
    case False
    with Cons show ?thesis by simp
  qed
qed

lemma oneOpen_count:
  assumes "oneOpenSessionPerChannel d"
  shows "length (filter (\<lambda>r. channel r = cid \<and> endTime r = None) (ChannelData d)) \<le> 1"
proof -
  have "filter (\<lambda>r. channel r = cid \<and> endTime r = None) (ChannelData d)
      = filter (\<lambda>r. channel r = cid) (filter (\<lambda>r. endTime r = None) (ChannelData d))"
    by (simp add: conj_commute)
  with distinct_keys_at_most_one[of channel "filter (\<lambda>r. endTime r = None) (ChannelData d)" cid]
    assms
  show ?thesis by (simp add: oneOpenSessionPerChannel_def)
qed

lemma checkChannel_insert_guarded:
  assumes "length (ChannelData (db (checkChannel e name w))) \<noteq> length (ChannelData (db w))"
  shows "\<exists>row. ChannelData (db (checkChannel e name w)) = ChannelData (db w) @ [row]
           \<and> endTime row = None \<and> selectOpenSession (channel row) (db w) = None"
proof (cases rule: checkChannel_sessions[where e = e and name = name and w = w])
  case same
  with assms show ?thesis by simp
next
  case (start cid row k)
  then show ?thesis by auto
next
  case (refresh cid row t)
  with assms show ?thesis by simp
next
  case (stop cid row k)
  with assms show ?thesis by simp
qed

text \<open>
  C1. Whatever the oracle, the sink and the clock do, and for every list of channels
  and number of ticks from the empty store, no channel has two open sessions (rows with
  no end time). One iteration, one round over the channels and any number of ticks keep
  this from any store that has it. A session row is inserted only when the query for an
  open session of that channel has returned none.
\<close>

theorem at_most_one_open_session:
  "oneOpenSessionPerChannel (db (mainLoop e channels n startBot))
   \<and> length (filter (\<lambda>r. channel r = cid \<and> endTime r = None)
               (ChannelData (db (mainLoop e channels n startBot)))) \<le> 1
   \<and> (oneOpenSessionPerChannel (db w) \<longrightarrow>
        oneOpenSessionPerChannel (db (checkChannel e name w))
      \<and> oneOpenSessionPerChannel (db (checkAllChannels e channels w))
      \<and> oneOpenSessionPerChannel (db (mainLoop e channels n w)))
   \<and> (length (ChannelData (db (checkChannel e name w))) \<noteq> length (ChannelData (db w)) \<longrightarrow>
        (\<exists>row. ChannelData (db (checkChannel e name w)) = ChannelData (db w) @ [row]
           \<and> endTime row = None \<and> selectOpenSession (channel row) (db w) = None))"
  using mainLoop_oneOpen[OF startBot_oneOpen, of e channels n]
    oneOpen_count[OF mainLoop_oneOpen[OF startBot_oneOpen, of e channels n], of cid]
    checkChannel_oneOpen[of w e name] checkAllChannels_oneOpen[of w e channels]
    mainLoop_oneOpen[of w e channels n] checkChannel_insert_guarded[of e name w]
  by blast

theorem at_most_one_open_session_witness:
  "oneOpenSessionPerChannel (db startBot)
   \<and> oneOpenSessionPerChannel (db (checkChannel tickingEnv ''nova'' startBot))
   \<and> length (ChannelData (db (checkChannel tickingEnv ''nova'' startBot)))
       \<noteq> length (ChannelData (db startBot))
   \<and> map endTime (ChannelData (db (checkChannel tickingEnv ''nova'' startBot))) = [None]
   \<and> oneOpenSessionPerChannel (db (mainLoop tickingEnv [''nova'', ''nova''] 3 startBot))"
proof -
  have h1: "oneOpenSessionPerChannel (db startBot)" by code_simp
  have h2: "length (ChannelData (db (checkChannel tickingEnv ''nova'' startBot)))
       \<noteq> length (ChannelData (db startBot))" by code_simp
  have v: "map endTime (ChannelData (db (checkChannel tickingEnv ''nova'' startBot))) = [None]"
    by code_simp
  note t = at_most_one_open_session[where e = tickingEnv and channels = "[''nova'', ''nova'']"
      and n = 3 and w = startBot and name = "''nova''"]
  from t[THEN conjunct1] t[THEN conjunct2, THEN conjunct2, THEN conjunct1, THEN mp, OF h1, THEN conjunct1]
    h1 h2 v
  show ?thesis by simp
qed

section \<open>Closed sessions: end after start, closed once\<close>

lemma le_fold_max:
  fixes x :: int
  assumes "x \<le> i \<or> x \<in> set xs"
  shows "x \<le> fold max xs i"
  using assms
proof (induction xs arbitrary: i)
  case Nil
  then show ?case by simp
next
  case (Cons a xs)
  from Cons.prems have "x \<le> max a i \<or> x \<in> set xs" by auto
  from Cons.IH[OF this] show ?case by simp
qed

lemma nextRowid_fresh: "nextRowid ids \<notin> set ids"
proof (cases ids)
  case Nil
  then show ?thesis by simp
next
  case (Cons i rest)
  have "x < nextRowid ids" if "x \<in> set ids" for x
    using that le_fold_max[of x i rest] Cons by (auto simp: nextRowid_def)
  then show ?thesis by blast
qed

lemma rowid_after_update:
  "map rowid (map (\<lambda>r. if rowid r = rid then r\<lparr>lastThumbUpdate := Some t\<rparr> else r) rows)
     = map rowid rows"
  "map rowid (map (\<lambda>r. if rowid r = rid then r\<lparr>endTime := Some t\<rparr> else r) rows)
     = map rowid rows"
  by (induction rows) simp_all

lemma checkChannel_distinct_rowids:
  assumes "distinct (map rowid (ChannelData (db w)))"
  shows "distinct (map rowid (ChannelData (db (checkChannel e name w))))"
proof (cases rule: checkChannel_sessions[where e = e and name = name and w = w])
  case same
  with assms show ?thesis by simp
next
  case (start cid row k)
  with assms nextRowid_fresh[of "map rowid (ChannelData (db w))"] show ?thesis by simp
next
  case (refresh cid row t)
  with assms show ?thesis by (simp only: rowid_after_update)
next
  case (stop cid row k)
  with assms show ?thesis by (simp only: rowid_after_update)
qed

lemma update_other_rows_unchanged:
  assumes "distinct (map rowid rows)" and "row \<in> set rows" and "i < length rows"
    and "rows ! i \<noteq> row"
  shows "map (\<lambda>r. if rowid r = rowid row then g r else r) rows ! i = rows ! i"
proof -
  have "inj_on rowid (set rows)" using assms(1) by (simp add: distinct_map)
  moreover have "rows ! i \<in> set rows" using assms(3) by simp
  ultimately have "rowid (rows ! i) \<noteq> rowid row"
    using assms(2,4) by (auto dest: inj_onD)
  with assms(3) show ?thesis by simp
qed

lemma closedSessionsKept_refl: "closedSessionsKept d d"
  by (simp add: closedSessionsKept_def)

lemma closedSessionsKept_trans:
  assumes "closedSessionsKept d d'" and "closedSessionsKept d' d''"
  shows "closedSessionsKept d d''"
  using assms unfolding closedSessionsKept_def by (metis (no_types, lifting))

lemma closedSessionsKept_cong:
  assumes "ChannelData d' = ChannelData d''"
  shows "closedSessionsKept d d' = closedSessionsKept d d''"
  using assms by (simp add: closedSessionsKept_def)

lemma checkChannel_closed_kept:
  assumes "distinct (map rowid (ChannelData (db w)))"
  shows "closedSessionsKept (db w) (db (checkChannel e name w))"
proof -
  let ?cd = "ChannelData (db w)" and ?cd' = "ChannelData (db (checkChannel e name w))"
  have upd: "\<forall>i<length ?cd. endTime (?cd ! i) \<noteq> None \<longrightarrow>
      map (\<lambda>r. if rowid r = rowid row then g r else r) ?cd ! i = ?cd ! i"
    if "selectOpenSession cid (db w) = Some row" for cid row g
  proof (intro allI impI)
    fix i assume i: "i < length ?cd" and c: "endTime (?cd ! i) \<noteq> None"
    from selectOpenSession_Some[OF that] have "row \<in> set ?cd" "endTime row = None" by simp_all
    with c have "?cd ! i \<noteq> row" by auto
    from update_other_rows_unchanged[OF assms \<open>row \<in> set ?cd\<close> i this]
    show "map (\<lambda>r. if rowid r = rowid row then g r else r) ?cd ! i = ?cd ! i" .
  qed
  show ?thesis
  proof (cases rule: checkChannel_sessions[where e = e and name = name and w = w])
    case same
    then show ?thesis by (simp add: closedSessionsKept_def)
  next
    case (start cid row k)
    then show ?thesis by (simp add: closedSessionsKept_def nth_append)
  next
    case (refresh cid row t)
    with upd[OF refresh(1)] show ?thesis by (simp add: closedSessionsKept_def)
  next
    case (stop cid row k)
    with upd[OF stop(1)] show ?thesis by (simp add: closedSessionsKept_def)
  qed
qed

lemma checkAllChannels_distinct_rowids:
  assumes "distinct (map rowid (ChannelData (db w)))"
  shows "distinct (map rowid (ChannelData (db (checkAllChannels e channels w))))"
  using assms by (induction channels arbitrary: w) (simp_all add: checkChannel_distinct_rowids)

lemma checkAllChannels_closed_kept:
  assumes "distinct (map rowid (ChannelData (db w)))"
  shows "closedSessionsKept (db w) (db (checkAllChannels e channels w))"
  using assms
proof (induction channels arbitrary: w)
  case Nil
  then show ?case by (simp add: closedSessionsKept_refl)
next
  case (Cons name rest)
  from closedSessionsKept_trans[OF checkChannel_closed_kept[OF Cons.prems]
      Cons.IH[OF checkChannel_distinct_rowids[OF Cons.prems]]]
  show ?case by simp
qed

lemma mainLoop_distinct_rowids:
  assumes "distinct (map rowid (ChannelData (db w)))"
  shows "distinct (map rowid (ChannelData (db (mainLoop e channels n w))))"
  using assms by (induction n arbitrary: w) (simp_all add: checkAllChannels_distinct_rowids)

lemma mainLoop_closed_kept:
  assumes "distinct (map rowid (ChannelData (db w)))"
  shows "closedSessionsKept (db w) (db (mainLoop e channels n w))"
  using assms
proof (induction n arbitrary: w)
  case 0
  then show ?case by (simp add: closedSessionsKept_refl)
next
  case (Suc n)
  from closedSessionsKept_trans[OF checkAllChannels_closed_kept[OF Suc.prems]
      Suc.IH[OF checkAllChannels_distinct_rowids[OF Suc.prems]]]
  show ?case by simp
qed

lemma mainLoop_add:
  "mainLoop e channels (n + m) w = mainLoop e channels m (mainLoop e channels n w)"
  by (induction n arbitrary: w) simp_all

lemma startBot_distinct_rowids: "distinct (map rowid (ChannelData (db startBot)))"
  by (simp add: startBot_def emptyDatabase_def)

text \<open>The end time of a row changes only when the row is the one selected as open.\<close>

lemma checkChannel_closes_only_open:
  assumes "distinct (map rowid (ChannelData (db w)))"
    and "i < length (ChannelData (db w))"
    and "endTime (ChannelData (db (checkChannel e name w)) ! i) \<noteq> endTime (ChannelData (db w) ! i)"
  shows "endTime (ChannelData (db w) ! i) = None
    \<and> selectOpenSession (channel (ChannelData (db w) ! i)) (db w) = Some (ChannelData (db w) ! i)"
proof -
  let ?cd = "ChannelData (db w)" and ?cd' = "ChannelData (db (checkChannel e name w))"
  show ?thesis
  proof (cases rule: checkChannel_sessions[where e = e and name = name and w = w])
    case same
    with assms(3) show ?thesis by simp
  next
    case (start cid row k)
    with assms(2,3) show ?thesis by (simp add: nth_append)
  next
    case (refresh cid row t)
    with assms(2,3) show ?thesis by (simp split: if_splits)
  next
    case (stop cid row k)
    note sel = selectOpenSession_Some[OF stop(1)]
    have "?cd ! i = row"
    proof (rule ccontr)
      assume "?cd ! i \<noteq> row"
      from update_other_rows_unchanged[OF assms(1) sel[THEN conjunct1] assms(2) this]
      have "?cd' ! i = ?cd ! i" unfolding stop(3) .
      with assms(3) show False by simp
    qed
    with sel stop(1) show ?thesis by simp
  qed
qed

lemma endNotBeforeStart_iff:
  "endNotBeforeStart d
     = (\<forall>r \<in> set (ChannelData d). \<forall>t. endTime r = Some t \<longrightarrow> startTime r \<le> t)"
  by (auto simp: endNotBeforeStart_def split: option.splits)

lemma checkChannel_times:
  assumes mono: "nonDecreasingClock e"
    and ends: "endNotBeforeStart (db w)"
    and starts: "\<forall>r \<in> set (ChannelData (db w)). startTime r \<le> dateNow e (steps w)"
  shows "endNotBeforeStart (db (checkChannel e name w))
    \<and> (\<forall>r \<in> set (ChannelData (db (checkChannel e name w))).
          startTime r \<le> dateNow e (steps (checkChannel e name w)))"
proof -
  let ?w' = "checkChannel e name w"
  have later: "dateNow e (steps w) \<le> dateNow e (steps ?w')"
    using mono checkChannel_steps[of w e name] by (simp add: nonDecreasingClock_def)
  have starts': "startTime r \<le> dateNow e (steps ?w')" if "r \<in> set (ChannelData (db w))" for r
    using starts that later by force
  have ends': "startTime r \<le> t"
    if "r \<in> set (ChannelData (db w))" "endTime r = Some t" for r t
    using ends that by (simp add: endNotBeforeStart_iff)
  show ?thesis
  proof (cases rule: checkChannel_sessions[where e = e and name = name and w = w])
    case same
    with ends starts' show ?thesis by (simp add: endNotBeforeStart_iff)
  next
    case (start cid row k)
    have "dateNow e k \<le> dateNow e (steps ?w')"
      using mono start(7) by (simp add: nonDecreasingClock_def)
    with start ends' starts' show ?thesis by (auto simp: endNotBeforeStart_iff)
  next
    case (refresh cid row t)
    with ends' starts' show ?thesis
      by (auto simp: endNotBeforeStart_iff split: option.splits if_splits)
  next
    case (stop cid row k)
    have "startTime r \<le> dateNow e k" if "r \<in> set (ChannelData (db w))" for r
    proof -
      have "dateNow e (steps w) \<le> dateNow e k"
        using mono stop(2) by (simp add: nonDecreasingClock_def)
      with starts that show ?thesis by force
    qed
    with stop ends' starts' show ?thesis
      by (auto simp: endNotBeforeStart_iff split: option.splits if_splits)
  qed
qed

lemma checkAllChannels_times:
  assumes "nonDecreasingClock e"
    and "endNotBeforeStart (db w)"
    and "\<forall>r \<in> set (ChannelData (db w)). startTime r \<le> dateNow e (steps w)"
  shows "endNotBeforeStart (db (checkAllChannels e channels w))
    \<and> (\<forall>r \<in> set (ChannelData (db (checkAllChannels e channels w))).
          startTime r \<le> dateNow e (steps (checkAllChannels e channels w)))"
  using assms
proof (induction channels arbitrary: w)
  case Nil
  then show ?case by simp
next
  case (Cons name rest)
  from checkChannel_times[OF Cons.prems, of name]
  have "endNotBeforeStart (db (checkChannel e name w))"
    "\<forall>r \<in> set (ChannelData (db (checkChannel e name w))).
        startTime r \<le> dateNow e (steps (checkChannel e name w))"
    by simp_all
  from Cons.IH[OF Cons.prems(1) this] show ?case by simp
qed

lemma mainLoop_times:
  assumes "nonDecreasingClock e"
    and "endNotBeforeStart (db w)"
    and "\<forall>r \<in> set (ChannelData (db w)). startTime r \<le> dateNow e (steps w)"
  shows "endNotBeforeStart (db (mainLoop e channels n w))
    \<and> (\<forall>r \<in> set (ChannelData (db (mainLoop e channels n w))).
          startTime r \<le> dateNow e (steps (mainLoop e channels n w)))"
  using assms
proof (induction n arbitrary: w)
  case 0
  then show ?case by simp
next
  case (Suc n)
  from checkAllChannels_times[OF Suc.prems, of channels]
  have "endNotBeforeStart (db (checkAllChannels e channels w))"
    "\<forall>r \<in> set (ChannelData (db (checkAllChannels e channels w))).
        startTime r \<le> dateNow e (steps (checkAllChannels e channels w))"
    by simp_all
  from Suc.IH[OF Suc.prems(1) this] show ?case by simp
qed

lemma startBot_times:
  "endNotBeforeStart (db startBot)"
  "\<forall>r \<in> set (ChannelData (db startBot)). startTime r \<le> dateNow e (steps startBot)"
  by (simp_all add: endNotBeforeStart_def startBot_def emptyDatabase_def)

text \<open>
  C8. With a clock that never runs backwards, every closed session reached from the
  empty store ends no earlier than it started. The end time is set at most once: a
  session that is closed after \<open>n\<close> ticks is the very same row after any further ticks,
  and one iteration changes the end time of a row only if that row was the one selected
  as open (end absent) for its channel; rows that are already closed are left as they
  are. (Row ids are unique, as SQLite has them; the engine keeps them so.)
\<close>

theorem closed_sessions_monotonic:
  "(nonDecreasingClock e \<longrightarrow> endNotBeforeStart (db (mainLoop e channels n startBot)))
 \<and> closedSessionsKept (db (mainLoop e channels n startBot)) (db (mainLoop e channels (n + m) startBot))
 \<and> (distinct (map rowid (ChannelData (db w))) \<longrightarrow>
       closedSessionsKept (db w) (db (checkChannel e name w))
     \<and> distinct (map rowid (ChannelData (db (checkChannel e name w))))
     \<and> (\<forall>i < length (ChannelData (db w)).
          endTime (ChannelData (db (checkChannel e name w)) ! i) \<noteq> endTime (ChannelData (db w) ! i) \<longrightarrow>
          endTime (ChannelData (db w) ! i) = None
          \<and> selectOpenSession (channel (ChannelData (db w) ! i)) (db w) = Some (ChannelData (db w) ! i)))"
proof (intro conjI impI allI)
  assume "nonDecreasingClock e"
  from mainLoop_times[OF this startBot_times, of channels n]
  show "endNotBeforeStart (db (mainLoop e channels n startBot))" by simp
next
  have "distinct (map rowid (ChannelData (db (mainLoop e channels n startBot))))"
    by (rule mainLoop_distinct_rowids[OF startBot_distinct_rowids])
  from mainLoop_closed_kept[OF this, of e channels m]
  show "closedSessionsKept (db (mainLoop e channels n startBot))
      (db (mainLoop e channels (n + m) startBot))"
    by (simp add: mainLoop_add)
next
  assume d: "distinct (map rowid (ChannelData (db w)))"
  show "closedSessionsKept (db w) (db (checkChannel e name w))"
    by (rule checkChannel_closed_kept[OF d])
  show "distinct (map rowid (ChannelData (db (checkChannel e name w))))"
    by (rule checkChannel_distinct_rowids[OF d])
  fix i
  assume "i < length (ChannelData (db w))"
    "endTime (ChannelData (db (checkChannel e name w)) ! i) \<noteq> endTime (ChannelData (db w) ! i)"
  from checkChannel_closes_only_open[OF d this]
  show "endTime (ChannelData (db w) ! i) = None"
    "selectOpenSession (channel (ChannelData (db w) ! i)) (db w) = Some (ChannelData (db w) ! i)"
    by simp_all
qed

theorem closed_sessions_monotonic_witness:
  "nonDecreasingClock tickingEnv
   \<and> map startTime (ChannelData (db (mainLoop tickingEnv [''nova''] 2 startBot))) = [T0 + 240000]
   \<and> map endTime (ChannelData (db (mainLoop tickingEnv [''nova''] 2 startBot))) = [Some (T0 + 600000)]
   \<and> endNotBeforeStart (db (mainLoop tickingEnv [''nova''] 2 startBot))
   \<and> closedSessionsKept (db (mainLoop tickingEnv [''nova''] 2 startBot))
         (db (mainLoop tickingEnv [''nova''] (2 + 3) startBot))
   \<and> distinct (map rowid (ChannelData (db (mainLoop tickingEnv [''nova''] 1 startBot))))
   \<and> (0::nat) < length (ChannelData (db (mainLoop tickingEnv [''nova''] 1 startBot)))
   \<and> endTime (ChannelData (db (checkChannel tickingEnv ''nova''
          (mainLoop tickingEnv [''nova''] 1 startBot))) ! 0)
       \<noteq> endTime (ChannelData (db (mainLoop tickingEnv [''nova''] 1 startBot)) ! 0)
   \<and> closedSessionsKept (db (mainLoop tickingEnv [''nova''] 1 startBot))
         (db (checkChannel tickingEnv ''nova'' (mainLoop tickingEnv [''nova''] 1 startBot)))
   \<and> selectOpenSession (channel (ChannelData (db (mainLoop tickingEnv [''nova''] 1 startBot)) ! 0))
         (db (mainLoop tickingEnv [''nova''] 1 startBot))
       = Some (ChannelData (db (mainLoop tickingEnv [''nova''] 1 startBot)) ! 0)"
proof -
  let ?w1 = "mainLoop tickingEnv [''nova''] 1 startBot"
  have h1: "nonDecreasingClock tickingEnv"
    by (simp add: nonDecreasingClock_def tickingEnv_def)
  have h2: "distinct (map rowid (ChannelData (db ?w1)))" by code_simp
  have h3: "(0::nat) < length (ChannelData (db ?w1))" by code_simp
  have h4: "endTime (ChannelData (db (checkChannel tickingEnv ''nova'' ?w1)) ! 0)
       \<noteq> endTime (ChannelData (db ?w1) ! 0)" by code_simp
  have v1: "map startTime (ChannelData (db (mainLoop tickingEnv [''nova''] 2 startBot))) = [T0 + 240000]"
    by code_simp
  have v2: "map endTime (ChannelData (db (mainLoop tickingEnv [''nova''] 2 startBot)))
      = [Some (T0 + 600000)]"
    by code_simp
  note t = closed_sessions_monotonic[where e = tickingEnv and channels = "[''nova'']" and n = 2
      and m = 3 and w = ?w1 and name = "''nova''"]
  note step = t[THEN conjunct2, THEN conjunct2, THEN mp, OF h2]
  note only_open = step[THEN conjunct2, THEN conjunct2, THEN spec, THEN mp, OF h3, THEN mp, OF h4]
  from t[THEN conjunct1, THEN mp, OF h1] t[THEN conjunct2, THEN conjunct1] step[THEN conjunct1]
    only_open[THEN conjunct2] h1 h2 h3 h4 v1 v2
  show ?thesis by simp
qed

end
